theory Spec2Isabelle
  imports Complex_Main "HOL-Library.Sublist"
begin

section \<open>Strings\<close>

text \<open>
  Python strings are modelled as \<open>string\<close>, one \<open>char\<close> per code point, restricted to the
  code points below 256 (the range in which HTTP header values are decoded). Floats are
  modelled as reals: rounding, infinities and NaN are outside the model.
  \<open>lower_char\<close> is \<open>str.lower\<close> on that range: the ASCII capitals and the Latin-1
  capitals (all of U+00C0..U+00DE but the multiplication sign) move up by 32.
\<close>

definition lower_char :: "char \<Rightarrow> char" where
  "lower_char c =
     (let n = (of_char c :: nat)
      in if (65 \<le> n \<and> n \<le> 90) \<or> (192 \<le> n \<and> n \<le> 222 \<and> n \<noteq> 215)
         then char_of (n + 32) else c)"

definition lower :: "string \<Rightarrow> string" where
  "lower s = map lower_char s"

text \<open>The ASCII capital of a small ASCII letter, and equality of strings up to ASCII case.\<close>

definition is_ascii_small :: "char \<Rightarrow> bool" where
  "is_ascii_small d = (97 \<le> (of_char d :: nat) \<and> (of_char d :: nat) \<le> 122)"

definition ascii_capital :: "char \<Rightarrow> char" where
  "ascii_capital d = char_of ((of_char d :: nat) - 32)"

definition same_ignoring_case :: "string \<Rightarrow> string \<Rightarrow> bool" where
  "same_ignoring_case s w =
     list_all2 (\<lambda>c d. c = d \<or> (is_ascii_small d \<and> c = ascii_capital d)) s w"

text \<open>
  \<open>str.isspace\<close> of one character, which is also the class \<open>\s\<close> of the \<open>re\<close> module on
  \<open>str\<close> patterns; the decimal digits \<open>\d\<close>; the word characters \<open>\w\<close> (alphanumerics
  and the underscore), which decide \<open>\b\<close>.
\<close>

definition isspace :: "char \<Rightarrow> bool" where
  "isspace c =
     (let n = (of_char c :: nat)
      in (9 \<le> n \<and> n \<le> 13) \<or> (28 \<le> n \<and> n \<le> 32) \<or> n = 133 \<or> n = 160)"

definition isdecimal :: "char \<Rightarrow> bool" where
  "isdecimal c = (let n = (of_char c :: nat) in 48 \<le> n \<and> n \<le> 57)"

definition is_word_char :: "char \<Rightarrow> bool" where
  "is_word_char c =
     (let n = (of_char c :: nat)
      in (48 \<le> n \<and> n \<le> 57) \<or> (65 \<le> n \<and> n \<le> 90) \<or> n = 95 \<or> (97 \<le> n \<and> n \<le> 122)
         \<or> n = 170 \<or> n = 178 \<or> n = 179 \<or> n = 181 \<or> n = 185 \<or> n = 186
         \<or> (188 \<le> n \<and> n \<le> 190) \<or> (192 \<le> n \<and> n \<le> 214)
         \<or> (216 \<le> n \<and> n \<le> 246) \<or> (248 \<le> n \<and> n \<le> 255))"

text \<open>Cased characters, for \<open>str.isupper\<close>: true when no cased character is small and one is capital.\<close>

definition is_upper_char :: "char \<Rightarrow> bool" where
  "is_upper_char c =
     (let n = (of_char c :: nat)
      in (65 \<le> n \<and> n \<le> 90) \<or> (192 \<le> n \<and> n \<le> 214) \<or> (216 \<le> n \<and> n \<le> 222))"

definition is_lower_char :: "char \<Rightarrow> bool" where
  "is_lower_char c =
     (let n = (of_char c :: nat)
      in (97 \<le> n \<and> n \<le> 122) \<or> n = 170 \<or> n = 181 \<or> n = 186
         \<or> (223 \<le> n \<and> n \<le> 246) \<or> (248 \<le> n \<and> n \<le> 255))"


definition lstrip :: "string \<Rightarrow> string" where
  "lstrip s = dropWhile isspace s"

definition rstrip :: "string \<Rightarrow> string" where
  "rstrip s = rev (dropWhile isspace (rev s))"

definition strip :: "string \<Rightarrow> string" where
  "strip s = rstrip (lstrip s)"

text \<open>The slices \<open>xs[:n]\<close> and \<open>xs[i:]\<close> for any integers, negative ones counting from the end.\<close>

definition py_take :: "int \<Rightarrow> 'a list \<Rightarrow> 'a list" where
  "py_take n xs = (if 0 \<le> n then take (nat n) xs else take (nat (int (length xs) + n)) xs)"


text \<open>\<open>text.find(sub, start)\<close> for a start inside the text: \<open>None\<close> is the result -1.\<close>

fun find_at :: "string \<Rightarrow> nat \<Rightarrow> string \<Rightarrow> nat option" where
  "find_at sub i [] = (if sub = [] then Some i else None)"
| "find_at sub i (x # xs) =
     (if prefix sub (x # xs) then Some i else find_at sub (Suc i) xs)"



abbreviation newline :: char where
  "newline \<equiv> CHR 0x0A"

section \<open>Regular expressions of the \<open>re\<close> module\<close>

text \<open>
  The patterns of the sources are written as syntax trees. Matching is backtracking
  search as \<open>re\<close> does it: \<open>ends r ic p\<close> lists, in the order in which backtracking tries
  them, the positions where a match of \<open>r\<close> that starts at position \<open>p\<close> can end. A position
  is the character before it, if any, and the text after it. \<open>ic\<close> is the flag \<open>re.I\<close>.
  Repetition is greedy; an iteration that consumes nothing is not repeated.
\<close>

datatype cset = CChar char | CSpace | CDigit | CDot | CAll | COneOf string | CRange char char
  | CUnion cset cset

primrec in_cset :: "cset \<Rightarrow> bool \<Rightarrow> char \<Rightarrow> bool" where
  "in_cset (CChar c) ic x = (if ic then lower_char x = lower_char c else x = c)"
| "in_cset CSpace ic x = isspace x"
| "in_cset CDigit ic x = isdecimal x"
| "in_cset CDot ic x = (x \<noteq> newline)"
| "in_cset CAll ic x = True"
| "in_cset (COneOf cs) ic x = (x \<in> set cs)"
| "in_cset (CRange a b) ic x = ((of_char a :: nat) \<le> of_char x \<and> (of_char x :: nat) \<le> of_char b)"
| "in_cset (CUnion a b) ic x = (in_cset a ic x \<or> in_cset b ic x)"

datatype rx = Eps | Atom cset | WordB | Bol | Eol | LookBehind cset
  | Seq rx rx | Alt rx rx | Opt rx | Star rx | Plus rx

type_synonym pos = "char option \<times> string"

type_synonym pattern = "rx \<times> bool"

primrec rep_greedy :: "nat \<Rightarrow> (pos \<Rightarrow> pos list) \<Rightarrow> pos \<Rightarrow> pos list" where
  "rep_greedy 0 f p = [p]"
| "rep_greedy (Suc n) f p =
     concat (map (rep_greedy n f) (filter (\<lambda>q. length (snd q) < length (snd p)) (f p))) @ [p]"

definition word_before :: "pos \<Rightarrow> bool" where
  "word_before p = (case fst p of None \<Rightarrow> False | Some c \<Rightarrow> is_word_char c)"

definition word_after :: "pos \<Rightarrow> bool" where
  "word_after p = (case snd p of [] \<Rightarrow> False | c # _ \<Rightarrow> is_word_char c)"

primrec ends :: "rx \<Rightarrow> bool \<Rightarrow> pos \<Rightarrow> pos list" where
  "ends Eps ic p = [p]"
| "ends (Atom cs) ic p =
     (case snd p of [] \<Rightarrow> [] | x # xs \<Rightarrow> if in_cset cs ic x then [(Some x, xs)] else [])"
| "ends WordB ic p = (if word_before p \<noteq> word_after p then [p] else [])"
| "ends Bol ic p = (if fst p = None then [p] else [])"
| "ends Eol ic p = (if snd p = [] \<or> snd p = [newline] then [p] else [])"
| "ends (LookBehind cs) ic p =
     (case fst p of None \<Rightarrow> [] | Some c \<Rightarrow> if in_cset cs ic c then [p] else [])"
| "ends (Seq r1 r2) ic p = concat (map (ends r2 ic) (ends r1 ic p))"
| "ends (Alt r1 r2) ic p = ends r1 ic p @ ends r2 ic p"
| "ends (Opt r) ic p = ends r ic p @ [p]"
| "ends (Star r) ic p = rep_greedy (length (snd p)) (ends r ic) p"
| "ends (Plus r) ic p =
     concat (map (\<lambda>q. rep_greedy (length (snd q)) (ends r ic) q) (ends r ic p))"

text \<open>
  The length of the match that backtracking finds first at a position, if there is one:
  \<open>match_len pat prev s\<close> for the text \<open>s\<close> after the character \<open>prev\<close>.
\<close>

definition match_len :: "pattern \<Rightarrow> char option \<Rightarrow> string \<Rightarrow> nat option" where
  "match_len pat prev s =
     (case ends (fst pat) (snd pat) (prev, s) of
        [] \<Rightarrow> None
      | q # _ \<Rightarrow> Some (length s - length (snd q)))"

text \<open>\<open>pattern.match(s)\<close>: the end of the match at the start of \<open>s\<close>.\<close>

definition re_match :: "pattern \<Rightarrow> string \<Rightarrow> nat option" where
  "re_match pat s = match_len pat None s"

text \<open>\<open>pattern.search(s)\<close>: start and end of the leftmost match.\<close>

fun search_at :: "pattern \<Rightarrow> nat \<Rightarrow> char option \<Rightarrow> string \<Rightarrow> (nat \<times> nat) option" where
  "search_at pat i prev [] =
     (case match_len pat prev [] of None \<Rightarrow> None | Some n \<Rightarrow> Some (i, i + n))"
| "search_at pat i prev (x # xs) =
     (case match_len pat prev (x # xs) of
        None \<Rightarrow> search_at pat (Suc i) (Some x) xs
      | Some n \<Rightarrow> Some (i, i + n))"

definition re_search :: "pattern \<Rightarrow> string \<Rightarrow> (nat \<times> nat) option" where
  "re_search pat s = search_at pat 0 None s"



fun findall_walk :: "pattern \<Rightarrow> char option \<Rightarrow> string \<Rightarrow> nat \<Rightarrow> string \<Rightarrow> string list" where
  "findall_walk pat prev [] skip cur = (if cur = [] then [] else [rev cur])"
| "findall_walk pat prev (x # xs) skip cur =
     (if 0 < skip then findall_walk pat (Some x) xs (skip - 1) (x # cur)
      else (if cur = [] then [] else [rev cur]) @
           (case match_len pat prev (x # xs) of
              None \<Rightarrow> findall_walk pat (Some x) xs 0 []
            | Some n \<Rightarrow>
                if n = 0 then findall_walk pat (Some x) xs 0 []
                else findall_walk pat (Some x) xs (n - 1) [x]))"

definition re_findall :: "pattern \<Rightarrow> string \<Rightarrow> string list" where
  "re_findall pat s = findall_walk pat None s 0 []"


text \<open>Building blocks for writing patterns down.\<close>

fun lit :: "string \<Rightarrow> rx" where
  "lit [] = Eps"
| "lit [c] = Atom (CChar c)"
| "lit (c # cs) = Seq (Atom (CChar c)) (lit cs)"

fun seqs :: "rx list \<Rightarrow> rx" where
  "seqs [] = Eps"
| "seqs [r] = r"
| "seqs (r # rs) = Seq r (seqs rs)"

fun alts :: "rx list \<Rightarrow> rx" where
  "alts [] = Eps"
| "alts [r] = r"
| "alts (r # rs) = Alt r (alts rs)"


abbreviation wsp :: rx where
  "wsp \<equiv> Plus (Atom CSpace)"

abbreviation anything :: rx where
  "anything \<equiv> Star (Atom CDot)"

abbreviation opt_s :: rx where
  "opt_s \<equiv> Opt (Atom (CChar CHR ''s''))"


section \<open>Roles and document access (app/core/security.py)\<close>

datatype UserRole = ANALYST | CONSULTANT | PARTNER


fun access_level :: "UserRole \<Rightarrow> nat" where
  "access_level ANALYST = 1"
| "access_level CONSULTANT = 2"
| "access_level PARTNER = 3"

definition can_access :: "UserRole \<Rightarrow> UserRole \<Rightarrow> bool" where
  "can_access r required_role = (access_level required_role \<le> access_level r)"

text \<open>\<open>UserRole(value)\<close>: the enum member with that value; \<open>None\<close> is the ValueError.\<close>

definition UserRole_of_value :: "string \<Rightarrow> UserRole option" where
  "UserRole_of_value v =
     (if v = ''analyst'' then Some ANALYST
      else if v = ''consultant'' then Some CONSULTANT
      else if v = ''partner'' then Some PARTNER
      else None)"

definition from_string :: "string \<Rightarrow> UserRole" where
  "from_string role_str =
     (case UserRole_of_value (lower role_str) of
        Some r \<Rightarrow> r
      | None \<Rightarrow> ANALYST)"

record User =
  user_id :: string
  role :: UserRole
  email :: "string option"

definition DOCUMENT_ACCESS_LEVELS :: "(string \<times> UserRole) list" where
  "DOCUMENT_ACCESS_LEVELS =
     [(''playbook'', ANALYST),
      (''guideline'', ANALYST),
      (''template'', ANALYST),
      (''training'', ANALYST),
      (''client_summary'', CONSULTANT),
      (''engagement'', CONSULTANT),
      (''proposal'', CONSULTANT),
      (''partner_memo'', PARTNER),
      (''fee_structure'', PARTNER),
      (''strategic_plan'', PARTNER),
      (''confidential'', PARTNER)]"

definition get_document_access_level :: "string \<Rightarrow> UserRole" where
  "get_document_access_level document_type =
     (case map_of DOCUMENT_ACCESS_LEVELS (lower document_type) of
        Some r \<Rightarrow> r
      | None \<Rightarrow> ANALYST)"

definition get_accessible_document_types :: "UserRole \<Rightarrow> string list" where
  "get_accessible_document_types user_role =
     map fst (filter (\<lambda>(doc_type, required_role). can_access user_role required_role)
                DOCUMENT_ACCESS_LEVELS)"

definition get_role_filter :: "UserRole \<Rightarrow> string list" where
  "get_role_filter user_role = get_accessible_document_types user_role"

text \<open>
  \<open>get_current_user\<close> after the API key check: the three header values become a user,
  the role through \<open>from_string\<close>.
\<close>

definition get_current_user :: "string \<Rightarrow> string \<Rightarrow> string option \<Rightarrow> User" where
  "get_current_user x_user_id x_user_role x_user_email =
     \<lparr>user_id = x_user_id, role = from_string x_user_role, email = x_user_email\<rparr>"


section \<open>Retrieved documents, filters and the two indexes\<close>

text \<open>
  Exceptions are values: the ones the sources tell apart, with the text of their message
  where it is used, and \<open>Failure\<close> for whatever else a collaborator (embedding
  provider, vector index, language model, a library) raises.
\<close>

datatype error = ZeroDivisionError | ValueError | JSONDecodeError string
  | ValidationError string | Failure string

record RetrievedDocument =
  chunk_id :: string
  document_id :: string
  content :: string
  score :: real
  rank :: int
  filename :: string
  document_type :: string
  title :: "string option"
  section_title :: "string option"
  chunk_index :: int
  doc_client_name :: "string option"
  doc_practice_area :: "string option"
  tags :: "string list"

text \<open>
  A filter dictionary maps a field to a list of allowed values or to one value; a payload
  (the metadata stored with a chunk) maps a field to a string, an integer, a list of
  strings or \<open>None\<close>. Both keep their insertion order. Payload values are taken to have
  the types that ingestion writes.
\<close>

datatype filter_value = FList "string list" | FStr string

type_synonym filter_dict = "(string \<times> filter_value) list"

datatype payload_value = PStr string | PInt int | PList "string list" | PNone

type_synonym payload = "(string \<times> payload_value) list"

definition get_str :: "payload \<Rightarrow> string \<Rightarrow> string \<Rightarrow> string" where
  "get_str p k dflt = (case map_of p k of Some (PStr s) \<Rightarrow> s | _ \<Rightarrow> dflt)"

definition get_opt_str :: "payload \<Rightarrow> string \<Rightarrow> string option" where
  "get_opt_str p k = (case map_of p k of Some (PStr s) \<Rightarrow> Some s | _ \<Rightarrow> None)"

definition get_int :: "payload \<Rightarrow> string \<Rightarrow> int \<Rightarrow> int" where
  "get_int p k dflt = (case map_of p k of Some (PInt i) \<Rightarrow> i | _ \<Rightarrow> dflt)"

definition get_list :: "payload \<Rightarrow> string \<Rightarrow> string list" where
  "get_list p k = (case map_of p k of Some (PList xs) \<Rightarrow> xs | _ \<Rightarrow> [])"

subsection \<open>The sparse index (app/retrieval/bm25.py)\<close>

record BM25Document =
  bm_doc_id :: string
  bm_chunk_id :: string
  bm_content :: string
  bm_tokens :: "string list"
  bm_metadata :: payload

text \<open>\<open>_tokenize\<close>: the matches of \<open>\b[a-z0-9]+\b\<close> in the lowered text, without the
  tokens of one or two characters that are not digits only.\<close>

definition token_pattern :: pattern where
  "token_pattern =
     (seqs [WordB, Plus (Atom (CUnion (CRange CHR ''a'' CHR ''z'') (CRange CHR ''0'' CHR ''9''))),
            WordB], False)"

definition tokenize :: "string \<Rightarrow> string list" where
  "tokenize text =
     filter (\<lambda>t. 2 < length t \<or> (t \<noteq> [] \<and> list_all isdecimal t))
       (re_findall token_pattern (lower text))"

text \<open>
  \<open>_apply_filters\<close>: the score of a document becomes 0 as soon as one field of the filter
  rejects its metadata.
\<close>

definition passes_filter :: "payload \<Rightarrow> string \<times> filter_value \<Rightarrow> bool" where
  "passes_filter md fv =
     (case snd fv of
        FList allowed_values \<Rightarrow>
          (case map_of md (fst fv) of Some (PStr s) \<Rightarrow> s \<in> set allowed_values | _ \<Rightarrow> False)
      | FStr allowed_value \<Rightarrow> map_of md (fst fv) = Some (PStr allowed_value))"

definition apply_filters :: "BM25Document list \<Rightarrow> real list \<Rightarrow> filter_dict \<Rightarrow> real list" where
  "apply_filters documents scores filter_dict =
     map (\<lambda>(doc, s). if list_all (passes_filter (bm_metadata doc)) filter_dict then s else 0)
       (zip documents scores)"

text \<open>
  \<open>BM25Index.search\<close>. The ranking library is a parameter: \<open>scorer corpus query_tokens i\<close>
  is the score it gives document \<open>i\<close> of the corpus, so there is one score per document.
  The indexes are sorted by falling score, equal scores keeping their order, cut to
  \<open>top_k\<close>, and numbered; an index whose score is not positive is passed over.
\<close>

type_synonym bm25_scorer = "string list list \<Rightarrow> string list \<Rightarrow> nat \<Rightarrow> real"

definition bm25_result :: "BM25Document list \<Rightarrow> real list \<Rightarrow> nat \<times> nat \<Rightarrow> RetrievedDocument" where
  "bm25_result documents scores ri =
     (let doc = documents ! snd ri
      in \<lparr>chunk_id = bm_chunk_id doc,
          document_id = bm_doc_id doc,
          content = bm_content doc,
          score = min (scores ! snd ri / 30) 1,
          rank = int (fst ri),
          filename = get_str (bm_metadata doc) ''filename'' '''',
          document_type = get_str (bm_metadata doc) ''document_type'' '''',
          title = get_opt_str (bm_metadata doc) ''title'',
          section_title = get_opt_str (bm_metadata doc) ''section_title'',
          chunk_index = get_int (bm_metadata doc) ''chunk_index'' 0,
          doc_client_name = None,
          doc_practice_area = None,
          tags = []\<rparr>)"

definition bm25_search ::
  "bm25_scorer \<Rightarrow> BM25Document list \<Rightarrow> string \<Rightarrow> int \<Rightarrow> filter_dict \<Rightarrow> RetrievedDocument list" where
  "bm25_search scorer documents query top_k filter_dict =
     (if documents = [] then []
      else let query_tokens = tokenize query
           in if query_tokens = [] then []
              else let raw = map (scorer (map bm_tokens documents) query_tokens)
                               [0..<length documents];
                       scores = (if filter_dict \<noteq> [] then apply_filters documents raw filter_dict
                                 else raw);
                       top_indices = py_take top_k (sort_key (\<lambda>i. - (scores ! i)) [0..<length scores])
                   in map (bm25_result documents scores)
                        (filter (\<lambda>ri. \<not> scores ! snd ri \<le> 0) (enumerate 0 top_indices)))"

subsection \<open>The dense index (app/retrieval/vector_store.py)\<close>

text \<open>
  \<open>VectorStore.search\<close> turns the filter dictionary into the conditions of a vector
  index query: a list of allowed values becomes a match-any condition, but only when the
  list is not empty; one value becomes a match-value condition. With no condition at all
  the query carries no filter. The vector index client is a parameter; whatever it
  raises leaves \<open>search\<close> as an exception.
\<close>

datatype condition = MatchAny string "string list" | MatchValue string string

fun build_conditions :: "filter_dict \<Rightarrow> condition list" where
  "build_conditions [] = []"
| "build_conditions ((field, FList values) # rest) =
     (if values \<noteq> [] then [MatchAny field values] else []) @ build_conditions rest"
| "build_conditions ((field, FStr v) # rest) = MatchValue field v # build_conditions rest"

definition build_query_filter :: "filter_dict \<Rightarrow> condition list option" where
  "build_query_filter filter_dict =
     (if filter_dict \<noteq> [] \<and> build_conditions filter_dict \<noteq> []
      then Some (build_conditions filter_dict) else None)"

type_synonym hit = "real \<times> payload"

type_synonym vector_client = "real list \<Rightarrow> int \<Rightarrow> condition list option \<Rightarrow> error + hit list"

definition from_search_result :: "nat \<times> hit \<Rightarrow> RetrievedDocument" where
  "from_search_result rh =
     (let p = snd (snd rh)
      in \<lparr>chunk_id = get_str p ''chunk_id'' '''',
          document_id = get_str p ''document_id'' '''',
          content = get_str p ''content'' '''',
          score = fst (snd rh),
          rank = int (fst rh),
          filename = get_str p ''filename'' '''',
          document_type = get_str p ''document_type'' '''',
          title = get_opt_str p ''title'',
          section_title = get_opt_str p ''section_title'',
          chunk_index = get_int p ''chunk_index'' 0,
          doc_client_name = get_opt_str p ''client_name'',
          doc_practice_area = get_opt_str p ''practice_area'',
          tags = get_list p ''tags''\<rparr>)"

definition vector_store_search ::
  "vector_client \<Rightarrow> real list \<Rightarrow> int \<Rightarrow> filter_dict \<Rightarrow> error + RetrievedDocument list" where
  "vector_store_search client query_embedding top_k filter_dict =
     (case client query_embedding top_k (build_query_filter filter_dict) of
        Inl e \<Rightarrow> Inl e
      | Inr results \<Rightarrow> Inr (map from_search_result (enumerate 0 results)))"

text \<open>
  A vector index for the examples: the stored points, already in the order of their
  similarity to the query, that meet every condition of the filter (all points when
  there is no filter), at most \<open>limit\<close> of them.
\<close>

definition meets :: "payload \<Rightarrow> condition \<Rightarrow> bool" where
  "meets p c =
     (case c of
        MatchAny field values \<Rightarrow>
          (case map_of p field of Some (PStr s) \<Rightarrow> s \<in> set values | _ \<Rightarrow> False)
      | MatchValue field v \<Rightarrow> map_of p field = Some (PStr v))"

definition stored_points_client :: "hit list \<Rightarrow> vector_client" where
  "stored_points_client points query_embedding limit query_filter =
     Inr (take (nat limit)
            (filter (\<lambda>h. case query_filter of None \<Rightarrow> True
                                | Some conditions \<Rightarrow> list_all (meets (snd h)) conditions)
               points))"

section \<open>Hybrid retrieval (app/retrieval/hybrid.py)\<close>

record HybridSearchConfig =
  dense_weight :: real
  sparse_weight :: real
  rrf_k :: int
  use_dense :: bool
  use_sparse :: bool

text \<open>The bounds that the settings put on the values from which a configuration is built.\<close>

definition settings_bounds :: "HybridSearchConfig \<Rightarrow> bool" where
  "settings_bounds cfg =
     (0 \<le> dense_weight cfg \<and> dense_weight cfg \<le> 1 \<and> 0 \<le> sparse_weight cfg
      \<and> sparse_weight cfg \<le> 1 \<and> 1 \<le> rrf_k cfg)"

text \<open>
  The score dictionary of the fusion, kept in insertion order: storing under a key that
  is present replaces the value where it stands.
\<close>

type_synonym score_dict = "(string \<times> real \<times> RetrievedDocument) list"

fun dict_set :: "string \<Rightarrow> real \<times> RetrievedDocument \<Rightarrow> score_dict \<Rightarrow> score_dict" where
  "dict_set k v [] = [(k, v)]"
| "dict_set k v (kv # kvs) = (if fst kv = k then (k, v) # kvs else kv # dict_set k v kvs)"

definition rrf_score :: "real \<Rightarrow> int \<Rightarrow> int \<Rightarrow> error + real" where
  "rrf_score weight k r =
     (if k + r = 0 then Inl ZeroDivisionError else Inr (weight / real_of_int (k + r)))"

fun add_dense :: "HybridSearchConfig \<Rightarrow> RetrievedDocument list \<Rightarrow> score_dict \<Rightarrow> error + score_dict" where
  "add_dense cfg [] scores = Inr scores"
| "add_dense cfg (doc # docs) scores =
     (case rrf_score (dense_weight cfg) (rrf_k cfg) (rank doc) of
        Inl e \<Rightarrow> Inl e
      | Inr s \<Rightarrow> add_dense cfg docs (dict_set (chunk_id doc) (s, doc) scores))"

fun add_sparse :: "HybridSearchConfig \<Rightarrow> RetrievedDocument list \<Rightarrow> score_dict \<Rightarrow> error + score_dict" where
  "add_sparse cfg [] scores = Inr scores"
| "add_sparse cfg (doc # docs) scores =
     (case rrf_score (sparse_weight cfg) (rrf_k cfg) (rank doc) of
        Inl e \<Rightarrow> Inl e
      | Inr s \<Rightarrow>
          (case map_of scores (chunk_id doc) of
             Some (existing_score, existing_doc) \<Rightarrow>
               add_sparse cfg docs
                 (dict_set (chunk_id doc) (existing_score + s, existing_doc) scores)
           | None \<Rightarrow> add_sparse cfg docs (dict_set (chunk_id doc) (s, doc) scores)))"

definition fused_doc :: "nat \<times> string \<times> real \<times> RetrievedDocument \<Rightarrow> RetrievedDocument" where
  "fused_doc item =
     (snd (snd (snd item)))\<lparr>score := min (fst (snd (snd item)) * 10) 1, rank := int (fst item)\<rparr>"

definition reciprocal_rank_fusion ::
  "HybridSearchConfig \<Rightarrow> RetrievedDocument list \<Rightarrow> RetrievedDocument list
     \<Rightarrow> error + RetrievedDocument list" where
  "reciprocal_rank_fusion cfg dense_results sparse_results =
     (case add_dense cfg dense_results [] of
        Inl e \<Rightarrow> Inl e
      | Inr scores1 \<Rightarrow>
          (case add_sparse cfg sparse_results scores1 of
             Inl e \<Rightarrow> Inl e
           | Inr scores \<Rightarrow>
               Inr (map fused_doc
                      (enumerate 0 (sort_key (\<lambda>item. - fst (snd item)) scores)))))"

text \<open>
  \<open>retrieve\<close>. The embedding provider and the searches of the two indexes are
  parameters, each returning its result or the exception it raises. A truthy optional
  string is one that is present and not empty; a truthy optional list likewise.
\<close>

definition truthy :: "'a list option \<Rightarrow> bool" where
  "truthy v = (case v of None \<Rightarrow> False | Some xs \<Rightarrow> xs \<noteq> [])"

definition allowed_types :: "UserRole \<Rightarrow> string list option \<Rightarrow> string list" where
  "allowed_types user_role document_types =
     (case document_types of
        None \<Rightarrow> get_role_filter user_role
      | Some ts \<Rightarrow>
          if ts \<noteq> [] then filter (\<lambda>t. t \<in> set (get_role_filter user_role)) ts
          else get_role_filter user_role)"

definition build_filter_dict ::
  "UserRole \<Rightarrow> string option \<Rightarrow> string option \<Rightarrow> string list option \<Rightarrow> filter_dict" where
  "build_filter_dict user_role client_name practice_area document_types =
     [(''document_type'', FList (allowed_types user_role document_types))]
     @ (case client_name of
          None \<Rightarrow> []
        | Some c \<Rightarrow> if c \<noteq> [] then [(''client_name'', FStr c)] else [])
     @ (case practice_area of
          None \<Rightarrow> []
        | Some a \<Rightarrow> if a \<noteq> [] then [(''practice_area'', FStr a)] else [])"

type_synonym embedder = "string \<Rightarrow> error + real list"

type_synonym dense_source = "real list \<Rightarrow> int \<Rightarrow> filter_dict \<Rightarrow> error + RetrievedDocument list"

type_synonym sparse_source = "string \<Rightarrow> int \<Rightarrow> filter_dict \<Rightarrow> error + RetrievedDocument list"

definition dense_retrieval ::
  "HybridSearchConfig \<Rightarrow> embedder \<Rightarrow> dense_source \<Rightarrow> string \<Rightarrow> int \<Rightarrow> filter_dict
     \<Rightarrow> RetrievedDocument list" where
  "dense_retrieval cfg embed_text vector_search query fetch_k filter_dict =
     (if use_dense cfg
      then (case embed_text query of
              Inl e \<Rightarrow> []
            | Inr query_embedding \<Rightarrow>
                (case vector_search query_embedding fetch_k filter_dict of
                   Inl e \<Rightarrow> []
                 | Inr results \<Rightarrow> results))
      else [])"

definition sparse_retrieval ::
  "HybridSearchConfig \<Rightarrow> sparse_source \<Rightarrow> string \<Rightarrow> int \<Rightarrow> filter_dict \<Rightarrow> RetrievedDocument list" where
  "sparse_retrieval cfg sparse_search query fetch_k filter_dict =
     (if use_sparse cfg
      then (case sparse_search query fetch_k filter_dict of Inl e \<Rightarrow> [] | Inr results \<Rightarrow> results)
      else [])"

definition combine_results ::
  "HybridSearchConfig \<Rightarrow> int \<Rightarrow> RetrievedDocument list \<Rightarrow> RetrievedDocument list
     \<Rightarrow> error + RetrievedDocument list" where
  "combine_results cfg top_k dense_results sparse_results =
     (if dense_results = [] \<and> sparse_results = [] then Inr []
      else if dense_results = [] then Inr (py_take top_k sparse_results)
      else if sparse_results = [] then Inr (py_take top_k dense_results)
      else (case reciprocal_rank_fusion cfg dense_results sparse_results of
              Inl e \<Rightarrow> Inl e
            | Inr fused_results \<Rightarrow> Inr (py_take top_k fused_results)))"

definition retrieve ::
  "HybridSearchConfig \<Rightarrow> embedder \<Rightarrow> dense_source \<Rightarrow> sparse_source \<Rightarrow> string \<Rightarrow> UserRole \<Rightarrow> int
     \<Rightarrow> string option \<Rightarrow> string option \<Rightarrow> string list option \<Rightarrow> error + RetrievedDocument list" where
  "retrieve cfg embed_text vector_search sparse_search query user_role top_k client_name
     practice_area document_types =
     (let filter_dict = build_filter_dict user_role client_name practice_area document_types;
          fetch_k = min (top_k * 2) 50
      in combine_results cfg top_k
           (dense_retrieval cfg embed_text vector_search query fetch_k filter_dict)
           (sparse_retrieval cfg sparse_search query fetch_k filter_dict))"


section \<open>Intent detection (app/workflows/intent.py)\<close>

datatype TaskType = QUESTION_ANSWER | SUMMARIZE_CLIENT | CLIENT_BACKGROUND | RISK_ANALYSIS
  | OPPORTUNITY_ANALYSIS | DRAFT_RECOMMENDATIONS | ACTION_ITEMS | EXECUTIVE_SUMMARY
  | TALKING_POINTS | COMPARE_APPROACHES | RESEARCH_TOPIC




record IntentMatch =
  task_type :: TaskType
  confidence :: real
  matched_patterns :: "pattern list"
  "method" :: string

text \<open>
  The pattern table, one list per task type in the order of the source. A pattern is its
  syntax tree with its flag; all but the last are compiled with \<open>re.I\<close>.
\<close>

definition summar :: rx where
  "summar = Seq (lit ''summar'') (alts [lit ''y'', lit ''ize'', lit ''ise''])"

definition opportunit :: rx where
  "opportunit = Seq (lit ''opportunit'') (alts [lit ''y'', lit ''ies''])"

definition SUMMARIZE_CLIENT_patterns :: "(pattern \<times> real) list" where
  "SUMMARIZE_CLIENT_patterns =
     [((seqs [WordB, summar, WordB, anything, WordB, lit ''client'', WordB], True), 1),
      ((seqs [WordB, lit ''client'', WordB, anything, WordB, summar, WordB], True), 1),
      ((seqs [WordB, lit ''client'', wsp,
              alts [lit ''background'', lit ''overview'', lit ''profile''], WordB], True), 9 / 10),
      ((seqs [WordB, lit ''tell'', wsp, lit ''me'', wsp, lit ''about'', WordB, anything,
              WordB, lit ''client'', WordB], True), 8 / 10),
      ((seqs [WordB, lit ''who'', wsp, lit ''is'', WordB, anything,
              WordB, lit ''client'', WordB], True), 7 / 10)]"

definition CLIENT_BACKGROUND_patterns :: "(pattern \<times> real) list" where
  "CLIENT_BACKGROUND_patterns =
     [((seqs [WordB, lit ''background'', WordB, anything, WordB, lit ''client'', WordB], True), 1),
      ((seqs [WordB, lit ''client'', WordB, anything, WordB, lit ''history'', WordB], True), 9 / 10),
      ((seqs [WordB, lit ''previous'', wsp, lit ''engagement'', opt_s, WordB], True), 8 / 10)]"

definition RISK_ANALYSIS_patterns :: "(pattern \<times> real) list" where
  "RISK_ANALYSIS_patterns =
     [((seqs [WordB, lit ''risk'', wsp,
              alts [lit ''analysis'', lit ''assessment'', lit ''evaluation''], WordB], True), 1),
      ((seqs [WordB, lit ''identify'', WordB, anything, WordB, lit ''risk'', opt_s, WordB], True), 1),
      ((seqs [WordB, lit ''what'', wsp, lit ''are'', wsp, lit ''the'', wsp,
              lit ''risk'', opt_s, WordB], True), 9 / 10),
      ((seqs [WordB, lit ''risk'', wsp, lit ''factor'', opt_s, WordB], True), 8 / 10),
      ((seqs [WordB, lit ''potential'', wsp,
              alts [Seq (lit ''issue'') opt_s, Seq (lit ''problem'') opt_s,
                    Seq (lit ''risk'') opt_s], WordB], True), 7 / 10)]"

definition OPPORTUNITY_ANALYSIS_patterns :: "(pattern \<times> real) list" where
  "OPPORTUNITY_ANALYSIS_patterns =
     [((seqs [WordB, opportunit, wsp, lit ''analysis'', WordB], True), 1),
      ((seqs [WordB, lit ''identify'', WordB, anything, WordB, opportunit, WordB], True), 1),
      ((seqs [WordB, lit ''growth'', wsp, opportunit, WordB], True), 9 / 10),
      ((seqs [WordB, lit ''potential'', wsp, opportunit, WordB], True), 8 / 10)]"

definition DRAFT_RECOMMENDATIONS_patterns :: "(pattern \<times> real) list" where
  "DRAFT_RECOMMENDATIONS_patterns =
     [((seqs [WordB, alts [lit ''draft'', lit ''write'', lit ''create''], WordB, anything,
              WordB, lit ''recommendation'', opt_s, WordB], True), 1),
      ((seqs [WordB, lit ''recommend'', Opt (lit ''ation''), opt_s, WordB, anything,
              WordB, alts [lit ''for'', lit ''to''], WordB], True), 9 / 10),
      ((seqs [WordB, lit ''what'', wsp,
              alts [seqs [lit ''do'', wsp, lit ''you''],
                    seqs [lit ''should'', wsp, alts [lit ''we'', lit ''I'']]],
              wsp, lit ''recommend'', WordB], True), 9 / 10),
      ((seqs [WordB, lit ''suggestion'', opt_s, WordB, anything, WordB, lit ''for'', WordB], True),
       7 / 10),
      ((seqs [WordB, lit ''what'', wsp, lit ''should'', wsp,
              alts [lit ''we'', lit ''they'', lit ''I''], wsp, lit ''do'', WordB], True), 7 / 10)]"

definition ACTION_ITEMS_patterns :: "(pattern \<times> real) list" where
  "ACTION_ITEMS_patterns =
     [((seqs [WordB, lit ''action'', wsp, lit ''item'', opt_s, WordB], True), 1),
      ((seqs [WordB, lit ''next'', wsp, lit ''step'', opt_s, WordB], True), 9 / 10),
      ((seqs [WordB, lit ''to'', Opt (lit ''-''), lit ''do'', wsp,
              alts [lit ''list'', Seq (lit ''item'') opt_s], WordB], True), 9 / 10),
      ((seqs [WordB, lit ''task'', opt_s, wsp, lit ''to'', wsp,
              alts [lit ''complete'', lit ''do''], WordB], True), 8 / 10),
      ((seqs [WordB, lit ''what'', wsp, alts [lit ''needs'', lit ''has''], wsp, lit ''to'', wsp,
              lit ''be'', wsp, lit ''done'', WordB], True), 7 / 10)]"

definition EXECUTIVE_SUMMARY_patterns :: "(pattern \<times> real) list" where
  "EXECUTIVE_SUMMARY_patterns =
     [((seqs [WordB, lit ''executive'', wsp, summar, WordB], True), 1),
      ((seqs [WordB, lit ''briefing'', WordB], True), 8 / 10),
      ((seqs [WordB, lit ''high'', Opt (Atom (COneOf ''- '')), lit ''level'', wsp,
              alts [lit ''overview'', lit ''summary''], WordB], True), 8 / 10),
      ((seqs [WordB, lit ''board'', wsp, alts [lit ''summary'', lit ''briefing''], WordB], True),
       9 / 10)]"

definition TALKING_POINTS_patterns :: "(pattern \<times> real) list" where
  "TALKING_POINTS_patterns =
     [((seqs [WordB, lit ''talking'', wsp, lit ''point'', opt_s, WordB], True), 1),
      ((seqs [WordB, lit ''key'', wsp,
              alts [Seq (lit ''message'') opt_s, Seq (lit ''point'') opt_s], WordB], True), 8 / 10),
      ((seqs [WordB, lit ''prepare'', wsp, Opt (Seq (lit ''me'') wsp), lit ''for'', wsp,
              Opt (Seq (lit ''a'') wsp),
              alts [lit ''meeting'', lit ''call'', lit ''presentation''], WordB], True), 8 / 10),
      ((seqs [WordB, lit ''what'', wsp, lit ''should'', wsp, lit ''I'', wsp, lit ''say'', WordB],
        True), 7 / 10)]"

definition COMPARE_APPROACHES_patterns :: "(pattern \<times> real) list" where
  "COMPARE_APPROACHES_patterns =
     [((seqs [WordB, lit ''compare'', WordB, anything, WordB,
              alts [Seq (lit ''approache'') opt_s, Seq (lit ''option'') opt_s,
                    Seq (lit ''alternative'') opt_s], WordB], True), 1),
      ((seqs [WordB,
              alts [seqs [lit ''pro'', opt_s, wsp, lit ''and'', wsp, lit ''con'', opt_s],
                    seqs [lit ''advantage'', opt_s, wsp, lit ''and'', wsp,
                          lit ''disadvantage'', opt_s]], WordB], True), 9 / 10),
      ((seqs [WordB, lit ''which'', wsp, alts [lit ''is'', lit ''option'', lit ''approach''], wsp,
              alts [lit ''better'', lit ''best''], WordB], True), 8 / 10),
      ((seqs [WordB, lit ''difference'', wsp, lit ''between'', WordB], True), 7 / 10)]"

definition RESEARCH_TOPIC_patterns :: "(pattern \<times> real) list" where
  "RESEARCH_TOPIC_patterns =
     [((seqs [WordB, lit ''research'', WordB, anything, WordB, lit ''topic'', WordB], True), 1),
      ((seqs [WordB, lit ''what'', wsp,
              alts [seqs [lit ''do'', wsp, lit ''we''], seqs [lit ''does'', wsp, lit ''the'']],
              wsp, lit ''know'', wsp, lit ''about'', WordB], True), 8 / 10),
      ((seqs [WordB, lit ''find'', wsp,
              alts [lit ''information'', Seq (lit ''detail'') opt_s], wsp,
              alts [lit ''on'', lit ''about''], WordB], True), 8 / 10),
      ((seqs [WordB, lit ''look'', wsp, lit ''up'', WordB], True), 6 / 10)]"

definition QUESTION_ANSWER_patterns :: "(pattern \<times> real) list" where
  "QUESTION_ANSWER_patterns =
     [((seqs [Bol, Star (Atom CSpace),
              alts [lit ''what'', lit ''who'', lit ''when'', lit ''where'', lit ''why'', lit ''how''],
              WordB], True), 3 / 10),
      ((Seq (Atom (CChar CHR ''?'')) Eol, False), 2 / 10)]"

definition INTENT_PATTERNS :: "(TaskType \<times> (pattern \<times> real) list) list" where
  "INTENT_PATTERNS =
     [(SUMMARIZE_CLIENT, SUMMARIZE_CLIENT_patterns),
      (CLIENT_BACKGROUND, CLIENT_BACKGROUND_patterns),
      (RISK_ANALYSIS, RISK_ANALYSIS_patterns),
      (OPPORTUNITY_ANALYSIS, OPPORTUNITY_ANALYSIS_patterns),
      (DRAFT_RECOMMENDATIONS, DRAFT_RECOMMENDATIONS_patterns),
      (ACTION_ITEMS, ACTION_ITEMS_patterns),
      (EXECUTIVE_SUMMARY, EXECUTIVE_SUMMARY_patterns),
      (TALKING_POINTS, TALKING_POINTS_patterns),
      (COMPARE_APPROACHES, COMPARE_APPROACHES_patterns),
      (RESEARCH_TOPIC, RESEARCH_TOPIC_patterns),
      (QUESTION_ANSWER, QUESTION_ANSWER_patterns)]"



text \<open>
  \<open>_detect_with_rules\<close>. The inner loop keeps the patterns that match and the greatest of
  their weights; the outer loop keeps an entry for each task type with a match; \<open>max\<close>
  takes the first entry with the greatest weight.
\<close>

definition note_match ::
  "bool \<Rightarrow> pattern \<Rightarrow> real \<Rightarrow> pattern list \<times> real \<Rightarrow> pattern list \<times> real" where
  "note_match found pat weight acc =
     (if found then (fst acc @ [pat], max (snd acc) weight) else acc)"

fun match_patterns ::
  "(pattern \<times> real) list \<Rightarrow> string \<Rightarrow> pattern list \<times> real \<Rightarrow> pattern list \<times> real" where
  "match_patterns [] query acc = acc"
| "match_patterns (pw # patterns) query acc =
     match_patterns patterns query
       (note_match (re_search (fst pw) query \<noteq> None) (fst pw) (snd pw) acc)"

definition score_entry ::
  "TaskType \<Rightarrow> pattern list \<times> real \<Rightarrow> (TaskType \<times> real \<times> pattern list) list" where
  "score_entry task found = (if fst found \<noteq> [] then [(task, snd found, fst found)] else [])"

fun rule_scores ::
  "(TaskType \<times> (pattern \<times> real) list) list \<Rightarrow> string
     \<Rightarrow> (TaskType \<times> real \<times> pattern list) list" where
  "rule_scores [] query = []"
| "rule_scores (entry # rest) query =
     score_entry (fst entry) (match_patterns (snd entry) query ([], 0)) @ rule_scores rest query"

fun py_max_by :: "('a \<Rightarrow> real) \<Rightarrow> 'a \<Rightarrow> 'a list \<Rightarrow> 'a" where
  "py_max_by key best [] = best"
| "py_max_by key best (x # xs) = py_max_by key (if key best < key x then x else best) xs"

definition best_match :: "(TaskType \<times> real \<times> pattern list) list \<Rightarrow> IntentMatch" where
  "best_match scores =
     (case scores of
        [] \<Rightarrow>
          \<lparr>task_type = QUESTION_ANSWER, confidence = 3 / 10, matched_patterns = [],
           method = ''rule''\<rparr>
      | s # ss \<Rightarrow>
          (let best = py_max_by (\<lambda>t. fst (snd t)) s ss
           in \<lparr>task_type = fst best, confidence = fst (snd best),
               matched_patterns = snd (snd best), method = ''rule''\<rparr>))"

definition detect_with_rules :: "string \<Rightarrow> IntentMatch" where
  "detect_with_rules query = best_match (rule_scores INTENT_PATTERNS query)"










section \<open>The pipeline (app/workflows/orchestrator.py)\<close>

text \<open>A parsed JSON document, which is also the type of a structured response.\<close>

datatype json = JNull | JBool bool | JNum real | JStr string | JArray "json list"
  | JObject "(string \<times> json) list"

fun has_key :: "string \<Rightarrow> json \<Rightarrow> bool" where
  "has_key k (JObject kvs) = (k \<in> fst ` set kvs)"
| "has_key k j = False"

fun get_key :: "string \<Rightarrow> json \<Rightarrow> json option" where
  "get_key k (JObject kvs) = map_of kvs k"
| "get_key k j = None"

text \<open>
  The first lines of \<open>_parse_response\<close>: a text that starts with a code fence loses the
  line of the opening fence and everything from the last fence on, when the last fence
  comes after the first line break. \<open>find\<close> and \<open>rfind\<close> return -1 when there is no
  occurrence.
\<close>

definition py_find :: "string \<Rightarrow> string \<Rightarrow> int" where
  "py_find text sub = (case find_at sub 0 text of None \<Rightarrow> - 1 | Some i \<Rightarrow> int i)"

fun occurrences :: "string \<Rightarrow> nat \<Rightarrow> string \<Rightarrow> nat list" where
  "occurrences sub i [] = (if sub = [] then [i] else [])"
| "occurrences sub i (x # xs) =
     (if prefix sub (x # xs) then [i] else []) @ occurrences sub (Suc i) xs"

definition py_rfind :: "string \<Rightarrow> string \<Rightarrow> int" where
  "py_rfind text sub =
     (case occurrences sub 0 text of [] \<Rightarrow> - 1 | p # ps \<Rightarrow> int (last (p # ps)))"

definition fence :: string where
  "fence = [CHR 0x60, CHR 0x60, CHR 0x60]"

definition clean_response :: "string \<Rightarrow> string" where
  "clean_response raw_response =
     (let cleaned = strip raw_response
      in if prefix fence cleaned
         then (let first_newline = py_find cleaned [newline];
                   last_fence = py_rfind cleaned fence
               in if first_newline < last_fence
                  then strip (take (nat (last_fence - (first_newline + 1)))
                                (drop (nat (first_newline + 1)) cleaned))
                  else cleaned)
         else cleaned)"

text \<open>The pattern \<open>\{[\s\S]*\}\<close> and the text of its leftmost match.\<close>

definition json_span_pattern :: pattern where
  "json_span_pattern =
     (seqs [Atom (CChar CHR ''{''), Star (Atom CAll), Atom (CChar CHR ''}'')], False)"

definition json_span :: "string \<Rightarrow> string option" where
  "json_span cleaned =
     (case re_search json_span_pattern cleaned of
        None \<Rightarrow> None
      | Some se \<Rightarrow> Some (take (snd se - fst se) (drop (fst se) cleaned)))"

text \<open>
  \<open>_parse_response\<close>. The JSON decoder and the validation against the output model of
  the task type (followed by the dump of the validated model) are parameters, each
  returning its value or the exception it raises. The body of the \<open>try\<close> gives a value or
  an exception; a JSON decode error and a validation error have their handlers, any other
  exception leaves the function. \<open>error_text\<close> is \<open>str(e)\<close>.
\<close>

type_synonym json_decoder = "string \<Rightarrow> error + json"

type_synonym validator = "TaskType \<Rightarrow> json \<Rightarrow> error + json"


definition narrative_response :: "string \<Rightarrow> string \<Rightarrow> json" where
  "narrative_response cleaned msg =
     JObject [(''summary'', JStr (take 500 cleaned)), (''raw_response'', JStr cleaned),
              (''parse_error'', JStr msg)]"

definition on_decode_error :: "json_decoder \<Rightarrow> string \<Rightarrow> string \<Rightarrow> json" where
  "on_decode_error json_loads cleaned msg =
     (case json_span cleaned of
        None \<Rightarrow> narrative_response cleaned msg
      | Some found_text \<Rightarrow>
          (case json_loads found_text of
             Inr parsed \<Rightarrow> parsed
           | Inl e \<Rightarrow> narrative_response cleaned msg))"

definition on_validation_error :: "json_decoder \<Rightarrow> string \<Rightarrow> string \<Rightarrow> json" where
  "on_validation_error json_loads cleaned msg =
     (case json_loads cleaned of
        Inr parsed \<Rightarrow> parsed
      | Inl e \<Rightarrow>
          JObject [(''summary'', JStr (take 500 cleaned)), (''validation_error'', JStr msg)])"

definition parse_response ::
  "bool \<Rightarrow> json_decoder \<Rightarrow> validator \<Rightarrow> string \<Rightarrow> TaskType \<Rightarrow> error + json" where
  "parse_response feature_structured_output_enabled json_loads model_validate raw_response task =
     (if \<not> feature_structured_output_enabled
      then Inr (JObject [(''raw_response'', JStr raw_response)])
      else let cleaned = clean_response raw_response
           in case (case json_loads cleaned of
                      Inl e \<Rightarrow> Inl e
                    | Inr parsed \<Rightarrow> model_validate task parsed) of
                Inr validated \<Rightarrow> Inr validated
              | Inl (JSONDecodeError msg) \<Rightarrow> Inr (on_decode_error json_loads cleaned msg)
              | Inl (ValidationError msg) \<Rightarrow> Inr (on_validation_error json_loads cleaned msg)
              | Inl e \<Rightarrow> Inl e)"

subsection \<open>Retrieval for the prompt\<close>





subsection \<open>One query\<close>















section \<open>Chunking (app/ingestion/chunker.py)\<close>


record TextSegment =
  seg_text :: string
  segment_type :: string
  heading_level :: "nat option"
  start_char :: nat
  end_char :: nat

text \<open>
  A chunk. The random identifier of a chunk and the document metadata, which every chunk
  carries unchanged, are not modelled.
\<close>

record DocumentChunk =
  dc_document_id :: string
  dc_content :: string
  dc_chunk_index :: nat
  dc_start_char :: nat
  dc_end_char :: nat
  dc_section_title :: "string option"
  dc_heading_hierarchy :: "string list"
  dc_token_count :: int



subsection \<open>Segments\<close>











subsection \<open>Overlap, long segments, headings\<close>









subsection \<open>Chunks\<close>

record chunker_state =
  chunks :: "DocumentChunk list"
  current_chunk_text :: string
  current_chunk_segments :: "TextSegment list"
  chunk_index :: nat
  current_heading_hierarchy :: "string list"
  current_section_title :: "string option"















section \<open>Notions used to state the properties\<close>

text \<open>
  What one source adds to the fused score of a chunk: \<open>weight / (k + rank)\<close> for the rank
  the chunk has in that source's list, nothing when the list does not contain it; and the
  sum over both sources.
\<close>

definition contribution :: "real \<Rightarrow> int \<Rightarrow> RetrievedDocument list \<Rightarrow> string \<Rightarrow> real" where
  "contribution weight k results cid =
     (case find (\<lambda>d. chunk_id d = cid) results of
        None \<Rightarrow> 0
      | Some d \<Rightarrow> weight / real_of_int (k + rank d))"

definition summed_score ::
  "HybridSearchConfig \<Rightarrow> RetrievedDocument list \<Rightarrow> RetrievedDocument list \<Rightarrow> string \<Rightarrow> real" where
  "summed_score cfg dense_results sparse_results cid =
     contribution (dense_weight cfg) (rrf_k cfg) dense_results cid
     + contribution (sparse_weight cfg) (rrf_k cfg) sparse_results cid"

text \<open>A result list as a source hands it over: no chunk twice, ranks not negative.\<close>

definition well_ranked :: "RetrievedDocument list \<Rightarrow> bool" where
  "well_ranked results = (distinct (map chunk_id results) \<and> list_all (\<lambda>d. 0 \<le> rank d) results)"

text \<open>The ranks of a list are 0, 1, 2, ... in this order.\<close>

definition ranks_from_zero :: "RetrievedDocument list \<Rightarrow> bool" where
  "ranks_from_zero results = (map rank results = map int [0..<length results])"

text \<open>The score that the fusion returns for a chunk, if the fusion returns the chunk.\<close>

definition fused_score ::
  "HybridSearchConfig \<Rightarrow> RetrievedDocument list \<Rightarrow> RetrievedDocument list \<Rightarrow> string \<Rightarrow> real option" where
  "fused_score cfg dense_results sparse_results cid =
     (case reciprocal_rank_fusion cfg dense_results sparse_results of
        Inl e \<Rightarrow> None
      | Inr fused \<Rightarrow> map_option score (find (\<lambda>d. chunk_id d = cid) fused))"



text \<open>The sparse source of the repository as a source of \<open>retrieve\<close>.\<close>

definition bm25_source :: "bm25_scorer \<Rightarrow> BM25Document list \<Rightarrow> sparse_source" where
  "bm25_source scorer documents query top_k filter_dict =
     Inr (bm25_search scorer documents query top_k filter_dict)"

subsection \<open>Data for the examples\<close>

definition default_config :: HybridSearchConfig where
  "default_config =
     \<lparr>dense_weight = 7 / 10, sparse_weight = 3 / 10, rrf_k = 60, use_dense = True,
      use_sparse = True\<rparr>"

definition example_doc :: "string \<Rightarrow> int \<Rightarrow> RetrievedDocument" where
  "example_doc cid r =
     \<lparr>chunk_id = cid, document_id = ''doc-1'', content = ''text'', score = 1 / 2, rank = r,
      filename = ''notes.md'', document_type = ''playbook'', title = None,
      section_title = None, chunk_index = 0, doc_client_name = None,
      doc_practice_area = None, tags = []\<rparr>"

text \<open>A stand-in for the ranking library: the number of query tokens a document contains.\<close>

definition overlap_scorer :: bm25_scorer where
  "overlap_scorer corpus query_tokens i =
     real (length (filter (\<lambda>t. t \<in> set (corpus ! i)) query_tokens))"

text \<open>One partner memo, held by both indexes, and one playbook chunk in the sparse index.\<close>

definition memo_points :: "hit list" where
  "memo_points =
     [(9 / 10,
       [(''chunk_id'', PStr ''c1''), (''document_id'', PStr ''d1''),
        (''content'', PStr ''fee split''), (''filename'', PStr ''memo.md''),
        (''document_type'', PStr ''partner_memo'')])]"

definition memo_documents :: "BM25Document list" where
  "memo_documents =
     [\<lparr>bm_doc_id = ''d1'', bm_chunk_id = ''c1'', bm_content = ''fee split'',
       bm_tokens = [''fee'', ''split''],
       bm_metadata = [(''filename'', PStr ''memo.md''), (''document_type'', PStr ''partner_memo'')]\<rparr>,
      \<lparr>bm_doc_id = ''d2'', bm_chunk_id = ''c2'', bm_content = ''fee policy'',
       bm_tokens = [''fee'', ''policy''],
       bm_metadata = [(''filename'', PStr ''play.md''), (''document_type'', PStr ''playbook'')]\<rparr>]"


definition constant_embedder :: embedder where
  "constant_embedder query = Inr [1, 0]"

definition fixed_dense_source :: "RetrievedDocument list \<Rightarrow> dense_source" where
  "fixed_dense_source results query_embedding top_k filter_dict = Inr results"

definition fixed_sparse_source :: "RetrievedDocument list \<Rightarrow> sparse_source" where
  "fixed_sparse_source results query top_k filter_dict = Inr results"






subsection \<open>Collaborators for the examples\<close>






text \<open>
  The JSON decoder on the texts of the examples: the value \<open>json.loads\<close> gives for each of
  them, or its decode error. Other texts do not occur in the examples; they are given a
  decode error here.
\<close>

definition quote :: string where
  "quote = [CHR 0x22]"

definition answer_object_text :: string where
  "answer_object_text = ''{'' @ quote @ ''answer'' @ quote @ '': '' @ quote @ ''yes'' @ quote @ ''}''"

definition answer_object :: json where
  "answer_object = JObject [(''answer'', JStr ''yes'')]"

definition example_json_loads :: json_decoder where
  "example_json_loads s =
     (if s = answer_object_text then Inr answer_object
      else if s = ''[1, 2]'' then Inr (JArray [JNum 1, JNum 2])
      else if s = ''Sure: '' @ answer_object_text
        then Inl (JSONDecodeError ''Expecting value: line 1 column 1 (char 0)'')
      else if s = ''{'' @ quote @ ''answer'' @ quote @ '':''
        then Inl (JSONDecodeError ''Expecting value: line 1 column 11 (char 10)'')
      else if s = ''risk_analysis|1.5''
        then Inl (JSONDecodeError ''Expecting value: line 1 column 1 (char 0)'')
      else Inl (JSONDecodeError ''Expecting value''))"

text \<open>
  The part of the validation that every output model has from its base class: the
  document is an object with a summary that is a string of 10 to 2000 characters. The
  fields of the single tasks are not modelled: what passes this check is returned as it is.
\<close>

definition base_output_validate :: validator where
  "base_output_validate task j =
     (case get_key ''summary'' j of
        Some (JStr s) \<Rightarrow>
          if 10 \<le> length s \<and> length s \<le> 2000 then Inr j
          else Inl (ValidationError ''summary: string length out of range'')
      | Some other \<Rightarrow> Inl (ValidationError ''summary: Input should be a valid string'')
      | None \<Rightarrow> Inl (ValidationError ''summary: Field required''))"







subsection \<open>Notions for the parse stage\<close>









section \<open>Properties of the role lookup\<close>

lemma of_char_char_of_small: "n < 256 \<Longrightarrow> (of_char (char_of n) :: nat) = n"
  by (simp add: of_char_of)

lemma lower_char_small:
  assumes "lower_char c = d" and "is_ascii_small d"
  shows "c = d \<or> c = ascii_capital d"
proof (cases "lower_char c = c")
  case True
  with assms show ?thesis by simp
next
  case False
  let ?n = "of_char c :: nat"
  from False have shifted: "d = char_of (?n + 32)" and rng: "?n \<le> 222"
    using assms(1) by (auto simp: lower_char_def Let_def split: if_splits)
  from rng have "(of_char d :: nat) = ?n + 32"
    unfolding shifted by (simp add: of_char_char_of_small)
  then have "ascii_capital d = char_of ?n"
    by (simp add: ascii_capital_def)
  then show ?thesis by simp
qed

lemma lower_same_ignoring_case:
  "lower s = w \<Longrightarrow> list_all is_ascii_small w \<Longrightarrow> same_ignoring_case s w"
proof (induction s arbitrary: w)
  case Nil
  then show ?case by (simp add: lower_def same_ignoring_case_def)
next
  case (Cons c s)
  then obtain d w' where w: "w = d # w'" and d: "lower_char c = d" and w': "lower s = w'"
    by (auto simp: lower_def)
  from Cons.prems w have small: "is_ascii_small d" and rest: "list_all is_ascii_small w'"
    by simp_all
  from lower_char_small [OF d small] have "c = d \<or> (is_ascii_small d \<and> c = ascii_capital d)"
    using small by blast
  moreover from Cons.IH [OF w' rest] have "same_ignoring_case s w'" .
  ultimately show ?case
    by (simp add: w same_ignoring_case_def)
qed

lemma role_names_small:
  "list_all is_ascii_small ''analyst''"
  "list_all is_ascii_small ''consultant''"
  "list_all is_ascii_small ''partner''"
  by (simp_all add: is_ascii_small_def)

lemma accessible_ANALYST:
  "get_accessible_document_types ANALYST = [''playbook'', ''guideline'', ''template'', ''training'']"
  by (simp add: get_accessible_document_types_def DOCUMENT_ACCESS_LEVELS_def can_access_def)

text \<open>
  Claim C10. A role string that is none of "analyst", "consultant", "partner" up to case
  never makes \<open>from_string\<close> fail: the result is ANALYST, the user built from an
  X-User-Role header with that value has the analyst role, and the document types
  that user may read are the four analyst-level ones.
\<close>

theorem from_string_unknown_role:
  assumes "\<not> same_ignoring_case s ''analyst''"
    and "\<not> same_ignoring_case s ''consultant''"
    and "\<not> same_ignoring_case s ''partner''"
  shows "from_string s = ANALYST
       \<and> role (get_current_user uid s mail) = ANALYST
       \<and> get_role_filter (role (get_current_user uid s mail))
           = [''playbook'', ''guideline'', ''template'', ''training'']"
proof -
  have "lower s \<noteq> ''consultant''"
    using assms(2) lower_same_ignoring_case role_names_small(2) by blast
  moreover have "lower s \<noteq> ''partner''"
    using assms(3) lower_same_ignoring_case role_names_small(3) by blast
  ultimately have "from_string s = ANALYST"
    by (simp add: from_string_def UserRole_of_value_def)
  then show ?thesis
    by (simp add: get_current_user_def get_role_filter_def accessible_ANALYST)
qed

theorem from_string_unknown_role_witness:
  "\<not> same_ignoring_case ''Admin'' ''analyst''
   \<and> \<not> same_ignoring_case ''Admin'' ''consultant''
   \<and> \<not> same_ignoring_case ''Admin'' ''partner''
   \<and> from_string ''Admin'' = ANALYST
   \<and> role (get_current_user ''u1'' ''Admin'' None) = ANALYST
   \<and> get_role_filter (role (get_current_user ''u1'' ''Admin'' None))
       = [''playbook'', ''guideline'', ''template'', ''training'']"
proof -
  have a: "\<not> same_ignoring_case ''Admin'' ''analyst''"
    by (simp add: same_ignoring_case_def)
  have b: "\<not> same_ignoring_case ''Admin'' ''consultant''"
    by (simp add: same_ignoring_case_def)
  have c: "\<not> same_ignoring_case ''Admin'' ''partner''"
    by (simp add: same_ignoring_case_def)
  from from_string_unknown_role [OF a b c, of "''u1''" None] a b c
  show ?thesis by blast
qed


section \<open>Evaluating patterns on texts\<close>

text \<open>The classes of the printable ASCII characters, as rewrite rules for evaluation.\<close>

lemma lower_char_ascii:
  "lower_char CHR '' '' = CHR '' ''"
  "lower_char CHR ''!'' = CHR ''!''"
  "lower_char CHR ''#'' = CHR ''#''"
  "lower_char CHR ''$'' = CHR ''$''"
  "lower_char CHR ''%'' = CHR ''%''"
  "lower_char CHR ''&'' = CHR ''&''"
  "lower_char CHR ''('' = CHR ''(''"
  "lower_char CHR '')'' = CHR '')''"
  "lower_char CHR ''*'' = CHR ''*''"
  "lower_char CHR ''+'' = CHR ''+''"
  "lower_char CHR '','' = CHR '',''"
  "lower_char CHR ''-'' = CHR ''-''"
  "lower_char CHR ''.'' = CHR ''.''"
  "lower_char CHR ''/'' = CHR ''/''"
  "lower_char CHR ''0'' = CHR ''0''"
  "lower_char CHR ''1'' = CHR ''1''"
  "lower_char CHR ''2'' = CHR ''2''"
  "lower_char CHR ''3'' = CHR ''3''"
  "lower_char CHR ''4'' = CHR ''4''"
  "lower_char CHR ''5'' = CHR ''5''"
  "lower_char CHR ''6'' = CHR ''6''"
  "lower_char CHR ''7'' = CHR ''7''"
  "lower_char CHR ''8'' = CHR ''8''"
  "lower_char CHR ''9'' = CHR ''9''"
  "lower_char CHR '':'' = CHR '':''"
  "lower_char CHR '';'' = CHR '';''"
  "lower_char CHR ''<'' = CHR ''<''"
  "lower_char CHR ''='' = CHR ''=''"
  "lower_char CHR ''>'' = CHR ''>''"
  "lower_char CHR ''?'' = CHR ''?''"
  "lower_char CHR ''@'' = CHR ''@''"
  "lower_char CHR ''A'' = CHR ''a''"
  "lower_char CHR ''B'' = CHR ''b''"
  "lower_char CHR ''C'' = CHR ''c''"
  "lower_char CHR ''D'' = CHR ''d''"
  "lower_char CHR ''E'' = CHR ''e''"
  "lower_char CHR ''F'' = CHR ''f''"
  "lower_char CHR ''G'' = CHR ''g''"
  "lower_char CHR ''H'' = CHR ''h''"
  "lower_char CHR ''I'' = CHR ''i''"
  "lower_char CHR ''J'' = CHR ''j''"
  "lower_char CHR ''K'' = CHR ''k''"
  "lower_char CHR ''L'' = CHR ''l''"
  "lower_char CHR ''M'' = CHR ''m''"
  "lower_char CHR ''N'' = CHR ''n''"
  "lower_char CHR ''O'' = CHR ''o''"
  "lower_char CHR ''P'' = CHR ''p''"
  "lower_char CHR ''Q'' = CHR ''q''"
  "lower_char CHR ''R'' = CHR ''r''"
  "lower_char CHR ''S'' = CHR ''s''"
  "lower_char CHR ''T'' = CHR ''t''"
  "lower_char CHR ''U'' = CHR ''u''"
  "lower_char CHR ''V'' = CHR ''v''"
  "lower_char CHR ''W'' = CHR ''w''"
  "lower_char CHR ''X'' = CHR ''x''"
  "lower_char CHR ''Y'' = CHR ''y''"
  "lower_char CHR ''Z'' = CHR ''z''"
  "lower_char CHR ''['' = CHR ''[''"
  "lower_char CHR '']'' = CHR '']''"
  "lower_char CHR ''^'' = CHR ''^''"
  "lower_char CHR ''_'' = CHR ''_''"
  "lower_char CHR ''a'' = CHR ''a''"
  "lower_char CHR ''b'' = CHR ''b''"
  "lower_char CHR ''c'' = CHR ''c''"
  "lower_char CHR ''d'' = CHR ''d''"
  "lower_char CHR ''e'' = CHR ''e''"
  "lower_char CHR ''f'' = CHR ''f''"
  "lower_char CHR ''g'' = CHR ''g''"
  "lower_char CHR ''h'' = CHR ''h''"
  "lower_char CHR ''i'' = CHR ''i''"
  "lower_char CHR ''j'' = CHR ''j''"
  "lower_char CHR ''k'' = CHR ''k''"
  "lower_char CHR ''l'' = CHR ''l''"
  "lower_char CHR ''m'' = CHR ''m''"
  "lower_char CHR ''n'' = CHR ''n''"
  "lower_char CHR ''o'' = CHR ''o''"
  "lower_char CHR ''p'' = CHR ''p''"
  "lower_char CHR ''q'' = CHR ''q''"
  "lower_char CHR ''r'' = CHR ''r''"
  "lower_char CHR ''s'' = CHR ''s''"
  "lower_char CHR ''t'' = CHR ''t''"
  "lower_char CHR ''u'' = CHR ''u''"
  "lower_char CHR ''v'' = CHR ''v''"
  "lower_char CHR ''w'' = CHR ''w''"
  "lower_char CHR ''x'' = CHR ''x''"
  "lower_char CHR ''y'' = CHR ''y''"
  "lower_char CHR ''z'' = CHR ''z''"
  "lower_char CHR ''{'' = CHR ''{''"
  "lower_char CHR ''|'' = CHR ''|''"
  "lower_char CHR ''}'' = CHR ''}''"
  "lower_char CHR ''~'' = CHR ''~''"
  by (simp_all add: lower_char_def char_of_eq_iff)

lemma is_word_char_ascii:
  "is_word_char CHR '' '' = False"
  "is_word_char CHR ''!'' = False"
  "is_word_char CHR ''#'' = False"
  "is_word_char CHR ''$'' = False"
  "is_word_char CHR ''%'' = False"
  "is_word_char CHR ''&'' = False"
  "is_word_char CHR ''('' = False"
  "is_word_char CHR '')'' = False"
  "is_word_char CHR ''*'' = False"
  "is_word_char CHR ''+'' = False"
  "is_word_char CHR '','' = False"
  "is_word_char CHR ''-'' = False"
  "is_word_char CHR ''.'' = False"
  "is_word_char CHR ''/'' = False"
  "is_word_char CHR ''0'' = True"
  "is_word_char CHR ''1'' = True"
  "is_word_char CHR ''2'' = True"
  "is_word_char CHR ''3'' = True"
  "is_word_char CHR ''4'' = True"
  "is_word_char CHR ''5'' = True"
  "is_word_char CHR ''6'' = True"
  "is_word_char CHR ''7'' = True"
  "is_word_char CHR ''8'' = True"
  "is_word_char CHR ''9'' = True"
  "is_word_char CHR '':'' = False"
  "is_word_char CHR '';'' = False"
  "is_word_char CHR ''<'' = False"
  "is_word_char CHR ''='' = False"
  "is_word_char CHR ''>'' = False"
  "is_word_char CHR ''?'' = False"
  "is_word_char CHR ''@'' = False"
  "is_word_char CHR ''A'' = True"
  "is_word_char CHR ''B'' = True"
  "is_word_char CHR ''C'' = True"
  "is_word_char CHR ''D'' = True"
  "is_word_char CHR ''E'' = True"
  "is_word_char CHR ''F'' = True"
  "is_word_char CHR ''G'' = True"
  "is_word_char CHR ''H'' = True"
  "is_word_char CHR ''I'' = True"
  "is_word_char CHR ''J'' = True"
  "is_word_char CHR ''K'' = True"
  "is_word_char CHR ''L'' = True"
  "is_word_char CHR ''M'' = True"
  "is_word_char CHR ''N'' = True"
  "is_word_char CHR ''O'' = True"
  "is_word_char CHR ''P'' = True"
  "is_word_char CHR ''Q'' = True"
  "is_word_char CHR ''R'' = True"
  "is_word_char CHR ''S'' = True"
  "is_word_char CHR ''T'' = True"
  "is_word_char CHR ''U'' = True"
  "is_word_char CHR ''V'' = True"
  "is_word_char CHR ''W'' = True"
  "is_word_char CHR ''X'' = True"
  "is_word_char CHR ''Y'' = True"
  "is_word_char CHR ''Z'' = True"
  "is_word_char CHR ''['' = False"
  "is_word_char CHR '']'' = False"
  "is_word_char CHR ''^'' = False"
  "is_word_char CHR ''_'' = True"
  "is_word_char CHR ''a'' = True"
  "is_word_char CHR ''b'' = True"
  "is_word_char CHR ''c'' = True"
  "is_word_char CHR ''d'' = True"
  "is_word_char CHR ''e'' = True"
  "is_word_char CHR ''f'' = True"
  "is_word_char CHR ''g'' = True"
  "is_word_char CHR ''h'' = True"
  "is_word_char CHR ''i'' = True"
  "is_word_char CHR ''j'' = True"
  "is_word_char CHR ''k'' = True"
  "is_word_char CHR ''l'' = True"
  "is_word_char CHR ''m'' = True"
  "is_word_char CHR ''n'' = True"
  "is_word_char CHR ''o'' = True"
  "is_word_char CHR ''p'' = True"
  "is_word_char CHR ''q'' = True"
  "is_word_char CHR ''r'' = True"
  "is_word_char CHR ''s'' = True"
  "is_word_char CHR ''t'' = True"
  "is_word_char CHR ''u'' = True"
  "is_word_char CHR ''v'' = True"
  "is_word_char CHR ''w'' = True"
  "is_word_char CHR ''x'' = True"
  "is_word_char CHR ''y'' = True"
  "is_word_char CHR ''z'' = True"
  "is_word_char CHR ''{'' = False"
  "is_word_char CHR ''|'' = False"
  "is_word_char CHR ''}'' = False"
  "is_word_char CHR ''~'' = False"
  by (simp_all add: is_word_char_def)

lemma isspace_ascii:
  "isspace CHR '' '' = True"
  "isspace CHR ''!'' = False"
  "isspace CHR ''#'' = False"
  "isspace CHR ''$'' = False"
  "isspace CHR ''%'' = False"
  "isspace CHR ''&'' = False"
  "isspace CHR ''('' = False"
  "isspace CHR '')'' = False"
  "isspace CHR ''*'' = False"
  "isspace CHR ''+'' = False"
  "isspace CHR '','' = False"
  "isspace CHR ''-'' = False"
  "isspace CHR ''.'' = False"
  "isspace CHR ''/'' = False"
  "isspace CHR ''0'' = False"
  "isspace CHR ''1'' = False"
  "isspace CHR ''2'' = False"
  "isspace CHR ''3'' = False"
  "isspace CHR ''4'' = False"
  "isspace CHR ''5'' = False"
  "isspace CHR ''6'' = False"
  "isspace CHR ''7'' = False"
  "isspace CHR ''8'' = False"
  "isspace CHR ''9'' = False"
  "isspace CHR '':'' = False"
  "isspace CHR '';'' = False"
  "isspace CHR ''<'' = False"
  "isspace CHR ''='' = False"
  "isspace CHR ''>'' = False"
  "isspace CHR ''?'' = False"
  "isspace CHR ''@'' = False"
  "isspace CHR ''A'' = False"
  "isspace CHR ''B'' = False"
  "isspace CHR ''C'' = False"
  "isspace CHR ''D'' = False"
  "isspace CHR ''E'' = False"
  "isspace CHR ''F'' = False"
  "isspace CHR ''G'' = False"
  "isspace CHR ''H'' = False"
  "isspace CHR ''I'' = False"
  "isspace CHR ''J'' = False"
  "isspace CHR ''K'' = False"
  "isspace CHR ''L'' = False"
  "isspace CHR ''M'' = False"
  "isspace CHR ''N'' = False"
  "isspace CHR ''O'' = False"
  "isspace CHR ''P'' = False"
  "isspace CHR ''Q'' = False"
  "isspace CHR ''R'' = False"
  "isspace CHR ''S'' = False"
  "isspace CHR ''T'' = False"
  "isspace CHR ''U'' = False"
  "isspace CHR ''V'' = False"
  "isspace CHR ''W'' = False"
  "isspace CHR ''X'' = False"
  "isspace CHR ''Y'' = False"
  "isspace CHR ''Z'' = False"
  "isspace CHR ''['' = False"
  "isspace CHR '']'' = False"
  "isspace CHR ''^'' = False"
  "isspace CHR ''_'' = False"
  "isspace CHR ''a'' = False"
  "isspace CHR ''b'' = False"
  "isspace CHR ''c'' = False"
  "isspace CHR ''d'' = False"
  "isspace CHR ''e'' = False"
  "isspace CHR ''f'' = False"
  "isspace CHR ''g'' = False"
  "isspace CHR ''h'' = False"
  "isspace CHR ''i'' = False"
  "isspace CHR ''j'' = False"
  "isspace CHR ''k'' = False"
  "isspace CHR ''l'' = False"
  "isspace CHR ''m'' = False"
  "isspace CHR ''n'' = False"
  "isspace CHR ''o'' = False"
  "isspace CHR ''p'' = False"
  "isspace CHR ''q'' = False"
  "isspace CHR ''r'' = False"
  "isspace CHR ''s'' = False"
  "isspace CHR ''t'' = False"
  "isspace CHR ''u'' = False"
  "isspace CHR ''v'' = False"
  "isspace CHR ''w'' = False"
  "isspace CHR ''x'' = False"
  "isspace CHR ''y'' = False"
  "isspace CHR ''z'' = False"
  "isspace CHR ''{'' = False"
  "isspace CHR ''|'' = False"
  "isspace CHR ''}'' = False"
  "isspace CHR ''~'' = False"
  by (simp_all add: isspace_def)

lemma is_upper_char_ascii:
  "is_upper_char CHR '' '' = False"
  "is_upper_char CHR ''!'' = False"
  "is_upper_char CHR ''#'' = False"
  "is_upper_char CHR ''$'' = False"
  "is_upper_char CHR ''%'' = False"
  "is_upper_char CHR ''&'' = False"
  "is_upper_char CHR ''('' = False"
  "is_upper_char CHR '')'' = False"
  "is_upper_char CHR ''*'' = False"
  "is_upper_char CHR ''+'' = False"
  "is_upper_char CHR '','' = False"
  "is_upper_char CHR ''-'' = False"
  "is_upper_char CHR ''.'' = False"
  "is_upper_char CHR ''/'' = False"
  "is_upper_char CHR ''0'' = False"
  "is_upper_char CHR ''1'' = False"
  "is_upper_char CHR ''2'' = False"
  "is_upper_char CHR ''3'' = False"
  "is_upper_char CHR ''4'' = False"
  "is_upper_char CHR ''5'' = False"
  "is_upper_char CHR ''6'' = False"
  "is_upper_char CHR ''7'' = False"
  "is_upper_char CHR ''8'' = False"
  "is_upper_char CHR ''9'' = False"
  "is_upper_char CHR '':'' = False"
  "is_upper_char CHR '';'' = False"
  "is_upper_char CHR ''<'' = False"
  "is_upper_char CHR ''='' = False"
  "is_upper_char CHR ''>'' = False"
  "is_upper_char CHR ''?'' = False"
  "is_upper_char CHR ''@'' = False"
  "is_upper_char CHR ''A'' = True"
  "is_upper_char CHR ''B'' = True"
  "is_upper_char CHR ''C'' = True"
  "is_upper_char CHR ''D'' = True"
  "is_upper_char CHR ''E'' = True"
  "is_upper_char CHR ''F'' = True"
  "is_upper_char CHR ''G'' = True"
  "is_upper_char CHR ''H'' = True"
  "is_upper_char CHR ''I'' = True"
  "is_upper_char CHR ''J'' = True"
  "is_upper_char CHR ''K'' = True"
  "is_upper_char CHR ''L'' = True"
  "is_upper_char CHR ''M'' = True"
  "is_upper_char CHR ''N'' = True"
  "is_upper_char CHR ''O'' = True"
  "is_upper_char CHR ''P'' = True"
  "is_upper_char CHR ''Q'' = True"
  "is_upper_char CHR ''R'' = True"
  "is_upper_char CHR ''S'' = True"
  "is_upper_char CHR ''T'' = True"
  "is_upper_char CHR ''U'' = True"
  "is_upper_char CHR ''V'' = True"
  "is_upper_char CHR ''W'' = True"
  "is_upper_char CHR ''X'' = True"
  "is_upper_char CHR ''Y'' = True"
  "is_upper_char CHR ''Z'' = True"
  "is_upper_char CHR ''['' = False"
  "is_upper_char CHR '']'' = False"
  "is_upper_char CHR ''^'' = False"
  "is_upper_char CHR ''_'' = False"
  "is_upper_char CHR ''a'' = False"
  "is_upper_char CHR ''b'' = False"
  "is_upper_char CHR ''c'' = False"
  "is_upper_char CHR ''d'' = False"
  "is_upper_char CHR ''e'' = False"
  "is_upper_char CHR ''f'' = False"
  "is_upper_char CHR ''g'' = False"
  "is_upper_char CHR ''h'' = False"
  "is_upper_char CHR ''i'' = False"
  "is_upper_char CHR ''j'' = False"
  "is_upper_char CHR ''k'' = False"
  "is_upper_char CHR ''l'' = False"
  "is_upper_char CHR ''m'' = False"
  "is_upper_char CHR ''n'' = False"
  "is_upper_char CHR ''o'' = False"
  "is_upper_char CHR ''p'' = False"
  "is_upper_char CHR ''q'' = False"
  "is_upper_char CHR ''r'' = False"
  "is_upper_char CHR ''s'' = False"
  "is_upper_char CHR ''t'' = False"
  "is_upper_char CHR ''u'' = False"
  "is_upper_char CHR ''v'' = False"
  "is_upper_char CHR ''w'' = False"
  "is_upper_char CHR ''x'' = False"
  "is_upper_char CHR ''y'' = False"
  "is_upper_char CHR ''z'' = False"
  "is_upper_char CHR ''{'' = False"
  "is_upper_char CHR ''|'' = False"
  "is_upper_char CHR ''}'' = False"
  "is_upper_char CHR ''~'' = False"
  by (simp_all add: is_upper_char_def)

lemma is_lower_char_ascii:
  "is_lower_char CHR '' '' = False"
  "is_lower_char CHR ''!'' = False"
  "is_lower_char CHR ''#'' = False"
  "is_lower_char CHR ''$'' = False"
  "is_lower_char CHR ''%'' = False"
  "is_lower_char CHR ''&'' = False"
  "is_lower_char CHR ''('' = False"
  "is_lower_char CHR '')'' = False"
  "is_lower_char CHR ''*'' = False"
  "is_lower_char CHR ''+'' = False"
  "is_lower_char CHR '','' = False"
  "is_lower_char CHR ''-'' = False"
  "is_lower_char CHR ''.'' = False"
  "is_lower_char CHR ''/'' = False"
  "is_lower_char CHR ''0'' = False"
  "is_lower_char CHR ''1'' = False"
  "is_lower_char CHR ''2'' = False"
  "is_lower_char CHR ''3'' = False"
  "is_lower_char CHR ''4'' = False"
  "is_lower_char CHR ''5'' = False"
  "is_lower_char CHR ''6'' = False"
  "is_lower_char CHR ''7'' = False"
  "is_lower_char CHR ''8'' = False"
  "is_lower_char CHR ''9'' = False"
  "is_lower_char CHR '':'' = False"
  "is_lower_char CHR '';'' = False"
  "is_lower_char CHR ''<'' = False"
  "is_lower_char CHR ''='' = False"
  "is_lower_char CHR ''>'' = False"
  "is_lower_char CHR ''?'' = False"
  "is_lower_char CHR ''@'' = False"
  "is_lower_char CHR ''A'' = False"
  "is_lower_char CHR ''B'' = False"
  "is_lower_char CHR ''C'' = False"
  "is_lower_char CHR ''D'' = False"
  "is_lower_char CHR ''E'' = False"
  "is_lower_char CHR ''F'' = False"
  "is_lower_char CHR ''G'' = False"
  "is_lower_char CHR ''H'' = False"
  "is_lower_char CHR ''I'' = False"
  "is_lower_char CHR ''J'' = False"
  "is_lower_char CHR ''K'' = False"
  "is_lower_char CHR ''L'' = False"
  "is_lower_char CHR ''M'' = False"
  "is_lower_char CHR ''N'' = False"
  "is_lower_char CHR ''O'' = False"
  "is_lower_char CHR ''P'' = False"
  "is_lower_char CHR ''Q'' = False"
  "is_lower_char CHR ''R'' = False"
  "is_lower_char CHR ''S'' = False"
  "is_lower_char CHR ''T'' = False"
  "is_lower_char CHR ''U'' = False"
  "is_lower_char CHR ''V'' = False"
  "is_lower_char CHR ''W'' = False"
  "is_lower_char CHR ''X'' = False"
  "is_lower_char CHR ''Y'' = False"
  "is_lower_char CHR ''Z'' = False"
  "is_lower_char CHR ''['' = False"
  "is_lower_char CHR '']'' = False"
  "is_lower_char CHR ''^'' = False"
  "is_lower_char CHR ''_'' = False"
  "is_lower_char CHR ''a'' = True"
  "is_lower_char CHR ''b'' = True"
  "is_lower_char CHR ''c'' = True"
  "is_lower_char CHR ''d'' = True"
  "is_lower_char CHR ''e'' = True"
  "is_lower_char CHR ''f'' = True"
  "is_lower_char CHR ''g'' = True"
  "is_lower_char CHR ''h'' = True"
  "is_lower_char CHR ''i'' = True"
  "is_lower_char CHR ''j'' = True"
  "is_lower_char CHR ''k'' = True"
  "is_lower_char CHR ''l'' = True"
  "is_lower_char CHR ''m'' = True"
  "is_lower_char CHR ''n'' = True"
  "is_lower_char CHR ''o'' = True"
  "is_lower_char CHR ''p'' = True"
  "is_lower_char CHR ''q'' = True"
  "is_lower_char CHR ''r'' = True"
  "is_lower_char CHR ''s'' = True"
  "is_lower_char CHR ''t'' = True"
  "is_lower_char CHR ''u'' = True"
  "is_lower_char CHR ''v'' = True"
  "is_lower_char CHR ''w'' = True"
  "is_lower_char CHR ''x'' = True"
  "is_lower_char CHR ''y'' = True"
  "is_lower_char CHR ''z'' = True"
  "is_lower_char CHR ''{'' = False"
  "is_lower_char CHR ''|'' = False"
  "is_lower_char CHR ''}'' = False"
  "is_lower_char CHR ''~'' = False"
  by (simp_all add: is_lower_char_def)

lemma isdecimal_ascii:
  "isdecimal CHR '' '' = False"
  "isdecimal CHR ''!'' = False"
  "isdecimal CHR ''#'' = False"
  "isdecimal CHR ''$'' = False"
  "isdecimal CHR ''%'' = False"
  "isdecimal CHR ''&'' = False"
  "isdecimal CHR ''('' = False"
  "isdecimal CHR '')'' = False"
  "isdecimal CHR ''*'' = False"
  "isdecimal CHR ''+'' = False"
  "isdecimal CHR '','' = False"
  "isdecimal CHR ''-'' = False"
  "isdecimal CHR ''.'' = False"
  "isdecimal CHR ''/'' = False"
  "isdecimal CHR ''0'' = True"
  "isdecimal CHR ''1'' = True"
  "isdecimal CHR ''2'' = True"
  "isdecimal CHR ''3'' = True"
  "isdecimal CHR ''4'' = True"
  "isdecimal CHR ''5'' = True"
  "isdecimal CHR ''6'' = True"
  "isdecimal CHR ''7'' = True"
  "isdecimal CHR ''8'' = True"
  "isdecimal CHR ''9'' = True"
  "isdecimal CHR '':'' = False"
  "isdecimal CHR '';'' = False"
  "isdecimal CHR ''<'' = False"
  "isdecimal CHR ''='' = False"
  "isdecimal CHR ''>'' = False"
  "isdecimal CHR ''?'' = False"
  "isdecimal CHR ''@'' = False"
  "isdecimal CHR ''A'' = False"
  "isdecimal CHR ''B'' = False"
  "isdecimal CHR ''C'' = False"
  "isdecimal CHR ''D'' = False"
  "isdecimal CHR ''E'' = False"
  "isdecimal CHR ''F'' = False"
  "isdecimal CHR ''G'' = False"
  "isdecimal CHR ''H'' = False"
  "isdecimal CHR ''I'' = False"
  "isdecimal CHR ''J'' = False"
  "isdecimal CHR ''K'' = False"
  "isdecimal CHR ''L'' = False"
  "isdecimal CHR ''M'' = False"
  "isdecimal CHR ''N'' = False"
  "isdecimal CHR ''O'' = False"
  "isdecimal CHR ''P'' = False"
  "isdecimal CHR ''Q'' = False"
  "isdecimal CHR ''R'' = False"
  "isdecimal CHR ''S'' = False"
  "isdecimal CHR ''T'' = False"
  "isdecimal CHR ''U'' = False"
  "isdecimal CHR ''V'' = False"
  "isdecimal CHR ''W'' = False"
  "isdecimal CHR ''X'' = False"
  "isdecimal CHR ''Y'' = False"
  "isdecimal CHR ''Z'' = False"
  "isdecimal CHR ''['' = False"
  "isdecimal CHR '']'' = False"
  "isdecimal CHR ''^'' = False"
  "isdecimal CHR ''_'' = False"
  "isdecimal CHR ''a'' = False"
  "isdecimal CHR ''b'' = False"
  "isdecimal CHR ''c'' = False"
  "isdecimal CHR ''d'' = False"
  "isdecimal CHR ''e'' = False"
  "isdecimal CHR ''f'' = False"
  "isdecimal CHR ''g'' = False"
  "isdecimal CHR ''h'' = False"
  "isdecimal CHR ''i'' = False"
  "isdecimal CHR ''j'' = False"
  "isdecimal CHR ''k'' = False"
  "isdecimal CHR ''l'' = False"
  "isdecimal CHR ''m'' = False"
  "isdecimal CHR ''n'' = False"
  "isdecimal CHR ''o'' = False"
  "isdecimal CHR ''p'' = False"
  "isdecimal CHR ''q'' = False"
  "isdecimal CHR ''r'' = False"
  "isdecimal CHR ''s'' = False"
  "isdecimal CHR ''t'' = False"
  "isdecimal CHR ''u'' = False"
  "isdecimal CHR ''v'' = False"
  "isdecimal CHR ''w'' = False"
  "isdecimal CHR ''x'' = False"
  "isdecimal CHR ''y'' = False"
  "isdecimal CHR ''z'' = False"
  "isdecimal CHR ''{'' = False"
  "isdecimal CHR ''|'' = False"
  "isdecimal CHR ''}'' = False"
  "isdecimal CHR ''~'' = False"
  by (simp_all add: isdecimal_def)

lemma newline_classes:
  "isspace newline" "\<not> is_word_char newline" "\<not> is_upper_char newline"
  "\<not> is_lower_char newline" "\<not> isdecimal newline" "lower_char newline = newline"
  by (simp_all add: isspace_def is_word_char_def is_upper_char_def is_lower_char_def
      isdecimal_def lower_char_def)

lemmas char_classes = lower_char_ascii is_word_char_ascii isspace_ascii is_upper_char_ascii
  is_lower_char_ascii isdecimal_ascii newline_classes

lemmas matching = re_search_def re_match_def match_len_def word_before_def word_after_def
  char_classes


section \<open>The fusion: what the score dictionary holds\<close>

lemma map_of_dict_set: "map_of (dict_set k v d) = (map_of d)(k \<mapsto> v)"
  by (induction d) (auto simp: fun_eq_iff)

lemma keys_dict_set:
  "fst ` set (dict_set k v d) = insert k (fst ` set d)"
  by (induction d) auto

lemma distinct_dict_set:
  "distinct (map fst d) \<Longrightarrow> distinct (map fst (dict_set k v d))"
  by (induction d) (auto simp: keys_dict_set)

lemma find_chunk_id: "find (\<lambda>d. chunk_id d = cid) docs = Some d \<Longrightarrow> chunk_id d = cid \<and> d \<in> set docs"
  by (induction docs) (auto split: if_splits)

lemma find_None_chunk: "find (\<lambda>d. chunk_id d = cid) docs = None \<longleftrightarrow> cid \<notin> chunk_id ` set docs"
  by (induction docs) auto

lemma add_dense_result:
  assumes "distinct (map chunk_id docs)"
    and "\<forall>d \<in> set docs. rrf_k cfg + rank d \<noteq> 0"
    and "distinct (map fst acc)"
  shows "\<exists>res. add_dense cfg docs acc = Inr res
           \<and> distinct (map fst res)
           \<and> fst ` set res = fst ` set acc \<union> chunk_id ` set docs
           \<and> (\<forall>cid. map_of res cid =
                 (case find (\<lambda>d. chunk_id d = cid) docs of
                    Some d \<Rightarrow> Some (dense_weight cfg / real_of_int (rrf_k cfg + rank d), d)
                  | None \<Rightarrow> map_of acc cid))"
  using assms
proof (induction docs arbitrary: acc)
  case Nil
  then show ?case by simp
next
  case (Cons doc docs)
  let ?v = "(dense_weight cfg / real_of_int (rrf_k cfg + rank doc), doc)"
  let ?acc = "dict_set (chunk_id doc) ?v acc"
  have step: "add_dense cfg (doc # docs) acc = add_dense cfg docs ?acc"
    using Cons.prems(2) by (simp add: rrf_score_def)
  have d: "distinct (map chunk_id docs)" and nz: "\<forall>d \<in> set docs. rrf_k cfg + rank d \<noteq> 0"
    and fresh: "chunk_id doc \<notin> chunk_id ` set docs"
    using Cons.prems by auto
  from Cons.IH [OF d nz distinct_dict_set [OF Cons.prems(3)]]
  obtain res where res: "add_dense cfg docs ?acc = Inr res" "distinct (map fst res)"
    "fst ` set res = fst ` set ?acc \<union> chunk_id ` set docs"
    "\<forall>cid. map_of res cid =
        (case find (\<lambda>d. chunk_id d = cid) docs of
           Some d \<Rightarrow> Some (dense_weight cfg / real_of_int (rrf_k cfg + rank d), d)
         | None \<Rightarrow> map_of ?acc cid)"
    by blast
  have "map_of res cid =
          (case find (\<lambda>d. chunk_id d = cid) (doc # docs) of
             Some d \<Rightarrow> Some (dense_weight cfg / real_of_int (rrf_k cfg + rank d), d)
           | None \<Rightarrow> map_of acc cid)" for cid
  proof (cases "chunk_id doc = cid")
    case True
    with fresh have "find (\<lambda>d. chunk_id d = cid) docs = None"
      by (simp add: find_None_chunk)
    with res(4) True show ?thesis by (simp add: map_of_dict_set)
  next
    case False
    with res(4) show ?thesis by (simp add: map_of_dict_set split: option.splits)
  qed
  with res step show ?case
    by (auto simp: keys_dict_set)
qed

lemma add_sparse_result:
  assumes "distinct (map chunk_id docs)"
    and "\<forall>d \<in> set docs. rrf_k cfg + rank d \<noteq> 0"
    and "distinct (map fst acc)"
  shows "\<exists>res. add_sparse cfg docs acc = Inr res
           \<and> distinct (map fst res)
           \<and> fst ` set res = fst ` set acc \<union> chunk_id ` set docs
           \<and> (\<forall>cid. map_of res cid =
                 (case find (\<lambda>d. chunk_id d = cid) docs of
                    Some d \<Rightarrow>
                      (case map_of acc cid of
                         Some (s0, d0) \<Rightarrow>
                           Some (s0 + sparse_weight cfg / real_of_int (rrf_k cfg + rank d), d0)
                       | None \<Rightarrow> Some (sparse_weight cfg / real_of_int (rrf_k cfg + rank d), d))
                  | None \<Rightarrow> map_of acc cid))"
  using assms
proof (induction docs arbitrary: acc)
  case Nil
  then show ?case by simp
next
  case (Cons doc docs)
  let ?s = "sparse_weight cfg / real_of_int (rrf_k cfg + rank doc)"
  let ?v = "(case map_of acc (chunk_id doc) of
               Some (s0, d0) \<Rightarrow> (s0 + ?s, d0) | None \<Rightarrow> (?s, doc))"
  let ?acc = "dict_set (chunk_id doc) ?v acc"
  have step: "add_sparse cfg (doc # docs) acc = add_sparse cfg docs ?acc"
    using Cons.prems(2) by (simp add: rrf_score_def split: option.splits)
  have d: "distinct (map chunk_id docs)" and nz: "\<forall>d \<in> set docs. rrf_k cfg + rank d \<noteq> 0"
    and fresh: "chunk_id doc \<notin> chunk_id ` set docs"
    using Cons.prems by auto
  from Cons.IH [OF d nz distinct_dict_set [OF Cons.prems(3)]]
  obtain res where res: "add_sparse cfg docs ?acc = Inr res" "distinct (map fst res)"
    "fst ` set res = fst ` set ?acc \<union> chunk_id ` set docs"
    "\<forall>cid. map_of res cid =
        (case find (\<lambda>d. chunk_id d = cid) docs of
           Some d \<Rightarrow>
             (case map_of ?acc cid of
                Some (s0, d0) \<Rightarrow>
                  Some (s0 + sparse_weight cfg / real_of_int (rrf_k cfg + rank d), d0)
              | None \<Rightarrow> Some (sparse_weight cfg / real_of_int (rrf_k cfg + rank d), d))
         | None \<Rightarrow> map_of ?acc cid)"
    by blast
  have "map_of res cid =
          (case find (\<lambda>d. chunk_id d = cid) (doc # docs) of
             Some d \<Rightarrow>
               (case map_of acc cid of
                  Some (s0, d0) \<Rightarrow>
                    Some (s0 + sparse_weight cfg / real_of_int (rrf_k cfg + rank d), d0)
                | None \<Rightarrow> Some (sparse_weight cfg / real_of_int (rrf_k cfg + rank d), d))
           | None \<Rightarrow> map_of acc cid)" for cid
  proof (cases "chunk_id doc = cid")
    case True
    with fresh have "find (\<lambda>d. chunk_id d = cid) docs = None"
      by (simp add: find_None_chunk)
    with res(4) True show ?thesis
      by (auto simp: map_of_dict_set split: option.splits)
  next
    case False
    with res(4) show ?thesis by (simp add: map_of_dict_set split: option.splits)
  qed
  with res step show ?case
    by (auto simp: keys_dict_set)
qed

lemma fusion_dict:
  assumes dd: "distinct (map chunk_id dense)" and ds: "distinct (map chunk_id sparse)"
    and nz: "\<forall>d \<in> set dense \<union> set sparse. rrf_k cfg + rank d \<noteq> 0"
  shows "\<exists>s1 scores. add_dense cfg dense [] = Inr s1 \<and> add_sparse cfg sparse s1 = Inr scores
           \<and> distinct (map fst scores)
           \<and> fst ` set scores = chunk_id ` (set dense \<union> set sparse)
           \<and> (\<forall>item \<in> set scores.
                 fst (snd item) = summed_score cfg dense sparse (fst item)
                 \<and> chunk_id (snd (snd item)) = fst item)"
proof -
  from nz have nzd: "\<forall>d \<in> set dense. rrf_k cfg + rank d \<noteq> 0"
    and nzs: "\<forall>d \<in> set sparse. rrf_k cfg + rank d \<noteq> 0" by auto
  from add_dense_result [OF dd nzd, of "[]"]
  obtain s1 where s1: "add_dense cfg dense [] = Inr s1" "distinct (map fst s1)"
    "fst ` set s1 = chunk_id ` set dense"
    "\<forall>cid. map_of s1 cid =
       (case find (\<lambda>d. chunk_id d = cid) dense of
          Some d \<Rightarrow> Some (dense_weight cfg / real_of_int (rrf_k cfg + rank d), d)
        | None \<Rightarrow> map_of [] cid)"
    by auto
  from add_sparse_result [OF ds nzs s1(2)]
  obtain scores where sc: "add_sparse cfg sparse s1 = Inr scores" "distinct (map fst scores)"
    "fst ` set scores = fst ` set s1 \<union> chunk_id ` set sparse"
    "\<forall>cid. map_of scores cid =
       (case find (\<lambda>d. chunk_id d = cid) sparse of
          Some d \<Rightarrow>
            (case map_of s1 cid of
               Some (s0, d0) \<Rightarrow>
                 Some (s0 + sparse_weight cfg / real_of_int (rrf_k cfg + rank d), d0)
             | None \<Rightarrow> Some (sparse_weight cfg / real_of_int (rrf_k cfg + rank d), d))
        | None \<Rightarrow> map_of s1 cid)"
    by blast
  have "fst (snd item) = summed_score cfg dense sparse (fst item)
        \<and> chunk_id (snd (snd item)) = fst item" if "item \<in> set scores" for item
  proof -
    obtain cid s d where item: "item = (cid, s, d)" by (cases item) auto
    with that sc(2) have m: "map_of scores cid = Some (s, d)" by simp
    note a = s1(4) [rule_format, of cid]
    note b = sc(4) [rule_format, of cid]
    show ?thesis
    proof (cases "find (\<lambda>d. chunk_id d = cid) dense")
      case None
      then have s1n: "map_of s1 cid = None" using a by simp
      show ?thesis
      proof (cases "find (\<lambda>d. chunk_id d = cid) sparse")
        case None
        then have "map_of scores cid = None" using b s1n by simp
        with m show ?thesis by simp
      next
        case (Some e)
        then have "map_of scores cid
            = Some (sparse_weight cfg / real_of_int (rrf_k cfg + rank e), e)"
          using b s1n by simp
        with m have "s = sparse_weight cfg / real_of_int (rrf_k cfg + rank e)" "d = e"
          by auto
        moreover from find_chunk_id [OF Some] have "chunk_id e = cid" by simp
        ultimately show ?thesis
          using None Some item by (simp add: summed_score_def contribution_def)
      qed
    next
      case (Some e1)
      then have s1s: "map_of s1 cid
          = Some (dense_weight cfg / real_of_int (rrf_k cfg + rank e1), e1)" using a by simp
      from find_chunk_id [OF Some] have c1: "chunk_id e1 = cid" by simp
      show ?thesis
      proof (cases "find (\<lambda>d. chunk_id d = cid) sparse")
        case None
        then have "map_of scores cid
            = Some (dense_weight cfg / real_of_int (rrf_k cfg + rank e1), e1)"
          using b s1s by simp
        with m have "s = dense_weight cfg / real_of_int (rrf_k cfg + rank e1)" "d = e1"
          by auto
        then show ?thesis
          using None Some item c1 by (simp add: summed_score_def contribution_def)
      next
        case (Some e2)
        then have "map_of scores cid
            = Some (dense_weight cfg / real_of_int (rrf_k cfg + rank e1)
                    + sparse_weight cfg / real_of_int (rrf_k cfg + rank e2), e1)"
          using b s1s by simp
        with m have "s = dense_weight cfg / real_of_int (rrf_k cfg + rank e1)
                  + sparse_weight cfg / real_of_int (rrf_k cfg + rank e2)" "d = e1"
          by auto
        then show ?thesis
          using \<open>find (\<lambda>d. chunk_id d = cid) dense = Some e1\<close> Some item c1
          by (simp add: summed_score_def contribution_def)
      qed
    qed
  qed
  with s1 sc show ?thesis
    by (auto simp: image_Un)
qed

lemma rank_fused_enumerate:
  "map rank (map fused_doc (enumerate n items)) = map int [n..<n + length items]"
  by (induction items arbitrary: n) (simp_all add: fused_doc_def upt_rec)

lemma chunk_id_fused_enumerate:
  "\<forall>item \<in> set items. chunk_id (snd (snd item)) = fst item \<Longrightarrow>
   map chunk_id (map fused_doc (enumerate n items)) = map fst items"
  by (induction items arbitrary: n) (simp_all add: fused_doc_def)

lemma fused_member:
  "r \<in> set (map fused_doc (enumerate n items)) \<Longrightarrow>
   \<exists>item \<in> set items. chunk_id r = chunk_id (snd (snd item))
      \<and> score r = min (fst (snd item) * 10) 1"
  by (induction items arbitrary: n) (auto simp: fused_doc_def)

lemma fusion_result:
  assumes dd: "distinct (map chunk_id dense)" and ds: "distinct (map chunk_id sparse)"
    and nz: "\<forall>d \<in> set dense \<union> set sparse. rrf_k cfg + rank d \<noteq> 0"
  shows "\<exists>fused. reciprocal_rank_fusion cfg dense sparse = Inr fused
           \<and> distinct (map chunk_id fused)
           \<and> chunk_id ` set fused = chunk_id ` (set dense \<union> set sparse)
           \<and> (\<forall>r \<in> set fused.
                 score r = min (summed_score cfg dense sparse (chunk_id r) * 10) 1)
           \<and> sorted_wrt (\<lambda>a b. summed_score cfg dense sparse (chunk_id b)
                                  \<le> summed_score cfg dense sparse (chunk_id a)) fused
           \<and> map rank fused = map int [0..<length fused]"
proof -
  from fusion_dict [OF dd ds nz]
  obtain s1 scores where sc: "add_dense cfg dense [] = Inr s1" "add_sparse cfg sparse s1 = Inr scores"
    "distinct (map fst scores)" "fst ` set scores = chunk_id ` (set dense \<union> set sparse)"
    and inv: "\<forall>item \<in> set scores.
          fst (snd item) = summed_score cfg dense sparse (fst item)
          \<and> chunk_id (snd (snd item)) = fst item"
    by blast
  let ?S = "summed_score cfg dense sparse"
  let ?items = "sort_key (\<lambda>item. - fst (snd item)) scores"
  let ?fused = "map fused_doc (enumerate 0 ?items)"
  have set_items: "set ?items = set scores" by simp
  with inv have inv': "\<forall>item \<in> set ?items. fst (snd item) = ?S (fst item)
      \<and> chunk_id (snd (snd item)) = fst item" by simp
  have rrf: "reciprocal_rank_fusion cfg dense sparse = Inr ?fused"
    by (simp add: reciprocal_rank_fusion_def sc)
  have ids: "map chunk_id ?fused = map fst ?items"
    using inv' by (intro chunk_id_fused_enumerate) simp
  have "distinct (map fst ?items)"
    using sc(3) by (simp add: distinct_map)
  with ids have dist: "distinct (map chunk_id ?fused)" by simp
  have "chunk_id ` set ?fused = set (map chunk_id ?fused)"
    by (simp only: set_map)
  also have "\<dots> = set (map fst ?items)"
    by (simp only: ids)
  also have "\<dots> = fst ` set scores"
    by simp
  finally have idset: "chunk_id ` set ?fused = chunk_id ` (set dense \<union> set sparse)"
    using sc(4) by simp
  have scores_ok: "score r = min (?S (chunk_id r) * 10) 1" if "r \<in> set ?fused" for r
  proof -
    from fused_member [OF that] obtain item where "item \<in> set ?items"
      "chunk_id r = chunk_id (snd (snd item))" "score r = min (fst (snd item) * 10) 1"
      by blast
    with inv' show ?thesis by simp
  qed
  have "sorted (map (\<lambda>item. - fst (snd item)) ?items)"
    by (rule sorted_sort_key)
  then have "sorted_wrt (\<lambda>a b. fst (snd b) \<le> fst (snd a)) ?items"
    by (simp add: sorted_map)
  then have "sorted_wrt (\<lambda>a b. ?S (chunk_id (snd (snd b))) \<le> ?S (chunk_id (snd (snd a)))) ?items"
    by (rule sorted_wrt_mono_rel [rotated]) (use inv' in auto)
  then have "sorted_wrt (\<lambda>a b. ?S (chunk_id (snd (snd (snd b))))
                               \<le> ?S (chunk_id (snd (snd (snd a))))) (enumerate 0 ?items)"
    using sorted_wrt_map [of "\<lambda>a b. ?S (chunk_id (snd (snd b))) \<le> ?S (chunk_id (snd (snd a)))"
                             snd "enumerate 0 ?items"]
    by simp
  then have srt: "sorted_wrt (\<lambda>a b. ?S (chunk_id b) \<le> ?S (chunk_id a)) ?fused"
    by (simp add: sorted_wrt_map fused_doc_def)
  have rk: "map rank ?fused = map int [0..<length ?fused]"
    using rank_fused_enumerate [of 0 ?items] by simp
  from rrf dist idset scores_ok srt rk show ?thesis by blast
qed

lemma py_take_nonneg: "0 \<le> n \<Longrightarrow> py_take n xs = take (nat n) xs"
  by (simp add: py_take_def)

lemma py_take_is_take: "\<exists>m. py_take n xs = take m xs"
  by (auto simp: py_take_def)

lemma well_ranked_nonzero:
  "well_ranked results \<Longrightarrow> 1 \<le> k \<Longrightarrow> \<forall>d \<in> set results. k + rank d \<noteq> 0"
  by (auto simp: well_ranked_def list_all_iff)


lemma example_fusion:
  "reciprocal_rank_fusion default_config [example_doc ''A'' 0, example_doc ''B'' 1]
     [example_doc ''B'' 0, example_doc ''C'' 1]
   = Inr [(example_doc ''B'' 0)\<lparr>score := 201 / 1220\<rparr>,
          (example_doc ''A'' 1)\<lparr>score := 7 / 60\<rparr>,
          (example_doc ''C'' 2)\<lparr>score := 3 / 61\<rparr>]"
  by (simp add: reciprocal_rank_fusion_def default_config_def example_doc_def rrf_score_def
      fused_doc_def enumerate_eq_zip)

lemma fused_score_eq:
  assumes "well_ranked dense" and "well_ranked sparse" and "1 \<le> rrf_k cfg"
  shows "fused_score cfg dense sparse x =
           (if x \<in> chunk_id ` (set dense \<union> set sparse)
            then Some (min (summed_score cfg dense sparse x * 10) 1) else None)"
proof -
  have nz: "\<forall>d \<in> set dense \<union> set sparse. rrf_k cfg + rank d \<noteq> 0"
    using well_ranked_nonzero [OF assms(1,3)] well_ranked_nonzero [OF assms(2,3)] by auto
  from assms(1,2) have dd: "distinct (map chunk_id dense)" and ds: "distinct (map chunk_id sparse)"
    by (simp_all add: well_ranked_def)
  from fusion_result [OF dd ds nz] obtain fused where
    f: "reciprocal_rank_fusion cfg dense sparse = Inr fused"
      "chunk_id ` set fused = chunk_id ` (set dense \<union> set sparse)"
      "\<forall>r \<in> set fused. score r = min (summed_score cfg dense sparse (chunk_id r) * 10) 1"
    by blast
  show ?thesis
  proof (cases "find (\<lambda>d. chunk_id d = x) fused")
    case None
    then have "x \<notin> chunk_id ` set fused" by (simp add: find_None_chunk)
    with None f show ?thesis by (simp add: fused_score_def)
  next
    case (Some r)
    from find_chunk_id [OF Some] have "chunk_id r = x" "r \<in> set fused" by simp_all
    with Some f show ?thesis by (auto simp: fused_score_def)
  qed
qed

lemma contribution_nonneg:
  assumes "0 \<le> w" and "1 \<le> k" and "well_ranked results"
  shows "0 \<le> contribution w k results x"
proof (cases "find (\<lambda>d. chunk_id d = x) results")
  case None
  then show ?thesis by (simp add: contribution_def)
next
  case (Some d)
  from find_chunk_id [OF Some] assms(3) have "0 \<le> rank d"
    by (auto simp: well_ranked_def list_all_iff)
  with assms(1,2) Some show ?thesis
    by (simp add: contribution_def)
qed

lemma min_scale_mono: "(a::real) \<le> b \<Longrightarrow> min (a * 10) 1 \<le> min (b * 10) 1"
  by (simp add: min_def)

lemma example_fused_scores:
  "fused_score default_config [example_doc ''A'' 0, example_doc ''B'' 1]
     [example_doc ''B'' 0, example_doc ''C'' 1] ''A'' = Some (7 / 60)"
  "fused_score default_config [example_doc ''A'' 0, example_doc ''B'' 1]
     [example_doc ''B'' 0, example_doc ''C'' 1] ''B'' = Some (201 / 1220)"
  "fused_score default_config [example_doc ''A'' 0, example_doc ''B'' 1]
     [example_doc ''B'' 0, example_doc ''C'' 1] ''C'' = Some (3 / 61)"
  by (simp_all add: fused_score_def example_fusion) (simp_all add: example_doc_def)


section \<open>Reciprocal rank fusion\<close>

text \<open>
  Claim C3. For two result lists that are not empty (each naming a chunk once, with
  ranks that are not negative, and the constant k at least 1 as the settings demand), the
  fusion returns every chunk of either list once; the score it returns for a chunk is
  min(10 * s, 1) where s is the sum, over the lists that hold the chunk, of
  weight / (k + rank in that list); the chunks come by falling s; their ranks are
  0, 1, 2, ...; and \<open>retrieve\<close>, for sources that return these two lists, returns the
  first \<open>top_k\<close> chunks of the fused list.
\<close>

theorem reciprocal_rank_fusion_scores_and_order:
  assumes "dense \<noteq> []" and "sparse \<noteq> []"
    and "well_ranked dense" and "well_ranked sparse"
    and "1 \<le> rrf_k cfg" and "0 \<le> top_k"
    and "dense_retrieval cfg embed_text vector_search query (min (top_k * 2) 50)
           (build_filter_dict user_role client_name practice_area document_types) = dense"
    and "sparse_retrieval cfg sparse_search query (min (top_k * 2) 50)
           (build_filter_dict user_role client_name practice_area document_types) = sparse"
  shows "\<exists>fused. reciprocal_rank_fusion cfg dense sparse = Inr fused
           \<and> distinct (map chunk_id fused)
           \<and> chunk_id ` set fused = chunk_id ` (set dense \<union> set sparse)
           \<and> (\<forall>r \<in> set fused.
                 score r = min (summed_score cfg dense sparse (chunk_id r) * 10) 1)
           \<and> sorted_wrt (\<lambda>a b. summed_score cfg dense sparse (chunk_id b)
                                  \<le> summed_score cfg dense sparse (chunk_id a)) fused
           \<and> ranks_from_zero fused
           \<and> retrieve cfg embed_text vector_search sparse_search query user_role top_k
                client_name practice_area document_types = Inr (take (nat top_k) fused)"
proof -
  have nz: "\<forall>d \<in> set dense \<union> set sparse. rrf_k cfg + rank d \<noteq> 0"
    using well_ranked_nonzero [OF assms(3,5)] well_ranked_nonzero [OF assms(4,5)] by auto
  from assms(3,4) have dd: "distinct (map chunk_id dense)" and ds: "distinct (map chunk_id sparse)"
    by (simp_all add: well_ranked_def)
  from fusion_result [OF dd ds nz] obtain fused where
    f: "reciprocal_rank_fusion cfg dense sparse = Inr fused"
      "distinct (map chunk_id fused)"
      "chunk_id ` set fused = chunk_id ` (set dense \<union> set sparse)"
      "\<forall>r \<in> set fused. score r = min (summed_score cfg dense sparse (chunk_id r) * 10) 1"
      "sorted_wrt (\<lambda>a b. summed_score cfg dense sparse (chunk_id b)
                          \<le> summed_score cfg dense sparse (chunk_id a)) fused"
      "map rank fused = map int [0..<length fused]"
    by blast
  have "retrieve cfg embed_text vector_search sparse_search query user_role top_k
          client_name practice_area document_types = combine_results cfg top_k dense sparse"
    using assms(7,8) by (simp add: retrieve_def Let_def)
  also have "\<dots> = Inr (take (nat top_k) fused)"
    using assms(1,2,6) f(1) by (simp add: combine_results_def py_take_nonneg)
  finally show ?thesis
    using f by (auto simp: ranks_from_zero_def)
qed


theorem reciprocal_rank_fusion_scores_and_order_witness:
  "[example_doc ''A'' 0, example_doc ''B'' 1] \<noteq> []
   \<and> [example_doc ''B'' 0, example_doc ''C'' 1] \<noteq> []
   \<and> well_ranked [example_doc ''A'' 0, example_doc ''B'' 1]
   \<and> well_ranked [example_doc ''B'' 0, example_doc ''C'' 1]
   \<and> 1 \<le> rrf_k default_config \<and> (0::int) \<le> 2
   \<and> dense_retrieval default_config constant_embedder
        (fixed_dense_source [example_doc ''A'' 0, example_doc ''B'' 1]) ''fees'' (min (2 * 2) 50)
        (build_filter_dict ANALYST None None None) = [example_doc ''A'' 0, example_doc ''B'' 1]
   \<and> sparse_retrieval default_config
        (fixed_sparse_source [example_doc ''B'' 0, example_doc ''C'' 1]) ''fees'' (min (2 * 2) 50)
        (build_filter_dict ANALYST None None None) = [example_doc ''B'' 0, example_doc ''C'' 1]
   \<and> (\<exists>fused. reciprocal_rank_fusion default_config [example_doc ''A'' 0, example_doc ''B'' 1]
                 [example_doc ''B'' 0, example_doc ''C'' 1] = Inr fused
           \<and> distinct (map chunk_id fused)
           \<and> chunk_id ` set fused = chunk_id ` (set [example_doc ''A'' 0, example_doc ''B'' 1]
                                                \<union> set [example_doc ''B'' 0, example_doc ''C'' 1])
           \<and> (\<forall>r \<in> set fused.
                 score r = min (summed_score default_config [example_doc ''A'' 0, example_doc ''B'' 1]
                                  [example_doc ''B'' 0, example_doc ''C'' 1] (chunk_id r) * 10) 1)
           \<and> sorted_wrt (\<lambda>a b. summed_score default_config [example_doc ''A'' 0, example_doc ''B'' 1]
                                    [example_doc ''B'' 0, example_doc ''C'' 1] (chunk_id b)
                                  \<le> summed_score default_config [example_doc ''A'' 0, example_doc ''B'' 1]
                                    [example_doc ''B'' 0, example_doc ''C'' 1] (chunk_id a)) fused
           \<and> ranks_from_zero fused
           \<and> retrieve default_config constant_embedder
                (fixed_dense_source [example_doc ''A'' 0, example_doc ''B'' 1])
                (fixed_sparse_source [example_doc ''B'' 0, example_doc ''C'' 1]) ''fees'' ANALYST 2
                None None None = Inr (take (nat 2) fused))"
proof -
  have h1: "[example_doc ''A'' 0, example_doc ''B'' 1] \<noteq> []" by simp
  have h2: "[example_doc ''B'' 0, example_doc ''C'' 1] \<noteq> []" by simp
  have h3: "well_ranked [example_doc ''A'' 0, example_doc ''B'' 1]"
    by (simp add: well_ranked_def example_doc_def)
  have h4: "well_ranked [example_doc ''B'' 0, example_doc ''C'' 1]"
    by (simp add: well_ranked_def example_doc_def)
  have h5: "1 \<le> rrf_k default_config" by (simp add: default_config_def)
  have h6: "(0::int) \<le> 2" by simp
  have h7: "dense_retrieval default_config constant_embedder
        (fixed_dense_source [example_doc ''A'' 0, example_doc ''B'' 1]) ''fees'' (min (2 * 2) 50)
        (build_filter_dict ANALYST None None None) = [example_doc ''A'' 0, example_doc ''B'' 1]"
    by (simp add: dense_retrieval_def default_config_def constant_embedder_def
        fixed_dense_source_def)
  have h8: "sparse_retrieval default_config
        (fixed_sparse_source [example_doc ''B'' 0, example_doc ''C'' 1]) ''fees'' (min (2 * 2) 50)
        (build_filter_dict ANALYST None None None) = [example_doc ''B'' 0, example_doc ''C'' 1]"
    by (simp add: sparse_retrieval_def default_config_def fixed_sparse_source_def)
  show ?thesis
    by (intro conjI h1 h2 h3 h4 h5 h6 h7 h8
        reciprocal_rank_fusion_scores_and_order [OF h1 h2 h3 h4 h5 h6 h7 h8])
qed


text \<open>
  Claim C4. With weights and k within the bounds of the settings, a chunk that both
  lists hold gets a fused score at least as high as a chunk that only one list holds at
  the rank it has there (in either list). And for the dense list A, B (ranks 0, 1), the
  sparse list B, C (ranks 0, 1), weights 0.7 and 0.3 and k = 60, the fused score of B is
  greater than that of A and that of C.
\<close>

theorem both_lists_score_at_least_one_list:
  "(settings_bounds cfg \<and> well_ranked dense1 \<and> well_ranked sparse1
      \<and> well_ranked dense2 \<and> well_ranked sparse2
      \<and> find (\<lambda>d. chunk_id d = x) dense1 = Some a1
      \<and> find (\<lambda>d. chunk_id d = x) sparse1 = Some b1
      \<and> ((find (\<lambda>d. chunk_id d = y) dense2 = Some a2 \<and> rank a2 = rank a1
            \<and> find (\<lambda>d. chunk_id d = y) sparse2 = None)
          \<or> (find (\<lambda>d. chunk_id d = y) dense2 = None
              \<and> find (\<lambda>d. chunk_id d = y) sparse2 = Some b2 \<and> rank b2 = rank b1))
    \<longrightarrow> (\<exists>v1 v2. fused_score cfg dense1 sparse1 x = Some v1
                 \<and> fused_score cfg dense2 sparse2 y = Some v2 \<and> v2 \<le> v1))
   \<and> (\<exists>a b c.
         fused_score default_config [example_doc ''A'' 0, example_doc ''B'' 1]
           [example_doc ''B'' 0, example_doc ''C'' 1] ''A'' = Some a
       \<and> fused_score default_config [example_doc ''A'' 0, example_doc ''B'' 1]
           [example_doc ''B'' 0, example_doc ''C'' 1] ''B'' = Some b
       \<and> fused_score default_config [example_doc ''A'' 0, example_doc ''B'' 1]
           [example_doc ''B'' 0, example_doc ''C'' 1] ''C'' = Some c
       \<and> a < b \<and> c < b)"
proof (intro conjI impI)
  assume h: "settings_bounds cfg \<and> well_ranked dense1 \<and> well_ranked sparse1
      \<and> well_ranked dense2 \<and> well_ranked sparse2
      \<and> find (\<lambda>d. chunk_id d = x) dense1 = Some a1
      \<and> find (\<lambda>d. chunk_id d = x) sparse1 = Some b1
      \<and> ((find (\<lambda>d. chunk_id d = y) dense2 = Some a2 \<and> rank a2 = rank a1
            \<and> find (\<lambda>d. chunk_id d = y) sparse2 = None)
          \<or> (find (\<lambda>d. chunk_id d = y) dense2 = None
              \<and> find (\<lambda>d. chunk_id d = y) sparse2 = Some b2 \<and> rank b2 = rank b1))"
  then have b: "0 \<le> dense_weight cfg" "0 \<le> sparse_weight cfg" "1 \<le> rrf_k cfg"
    and w: "well_ranked dense1" "well_ranked sparse1" "well_ranked dense2" "well_ranked sparse2"
    and fa: "find (\<lambda>d. chunk_id d = x) dense1 = Some a1"
    and fb: "find (\<lambda>d. chunk_id d = x) sparse1 = Some b1"
    by (simp_all add: settings_bounds_def)
  let ?cd = "dense_weight cfg / real_of_int (rrf_k cfg + rank a1)"
  let ?cs = "sparse_weight cfg / real_of_int (rrf_k cfg + rank b1)"
  have s1: "summed_score cfg dense1 sparse1 x = ?cd + ?cs"
    using fa fb by (simp add: summed_score_def contribution_def)
  have nd: "0 \<le> ?cd" using contribution_nonneg [OF b(1,3) w(1), of x] fa
    by (simp add: contribution_def)
  have ns: "0 \<le> ?cs" using contribution_nonneg [OF b(2,3) w(2), of x] fb
    by (simp add: contribution_def)
  from find_chunk_id [OF fa] have in1: "x \<in> chunk_id ` (set dense1 \<union> set sparse1)" by auto
  have v1: "fused_score cfg dense1 sparse1 x = Some (min ((?cd + ?cs) * 10) 1)"
    using fused_score_eq [OF w(1,2) b(3), of x] in1 s1 by simp
  from h consider
    (dense) "find (\<lambda>d. chunk_id d = y) dense2 = Some a2" "rank a2 = rank a1"
      "find (\<lambda>d. chunk_id d = y) sparse2 = None"
    | (sparse) "find (\<lambda>d. chunk_id d = y) dense2 = None"
      "find (\<lambda>d. chunk_id d = y) sparse2 = Some b2" "rank b2 = rank b1"
    by auto
  then show "\<exists>v1 v2. fused_score cfg dense1 sparse1 x = Some v1
                 \<and> fused_score cfg dense2 sparse2 y = Some v2 \<and> v2 \<le> v1"
  proof cases
    case dense
    then have s2: "summed_score cfg dense2 sparse2 y = ?cd"
      by (simp add: summed_score_def contribution_def)
    from find_chunk_id [OF dense(1)] have "y \<in> chunk_id ` (set dense2 \<union> set sparse2)" by auto
    then have "fused_score cfg dense2 sparse2 y = Some (min (?cd * 10) 1)"
      using fused_score_eq [OF w(3,4) b(3), of y] s2 by simp
    moreover have "min (?cd * 10) 1 \<le> min ((?cd + ?cs) * 10) 1"
      by (rule min_scale_mono) (use ns in linarith)
    ultimately show ?thesis using v1 by blast
  next
    case sparse
    then have s2: "summed_score cfg dense2 sparse2 y = ?cs"
      by (simp add: summed_score_def contribution_def)
    from find_chunk_id [OF sparse(2)] have "y \<in> chunk_id ` (set dense2 \<union> set sparse2)" by auto
    then have "fused_score cfg dense2 sparse2 y = Some (min (?cs * 10) 1)"
      using fused_score_eq [OF w(3,4) b(3), of y] s2 by simp
    moreover have "min (?cs * 10) 1 \<le> min ((?cd + ?cs) * 10) 1"
      by (rule min_scale_mono) (use nd in linarith)
    ultimately show ?thesis using v1 by blast
  qed
next
  show "\<exists>a b c.
         fused_score default_config [example_doc ''A'' 0, example_doc ''B'' 1]
           [example_doc ''B'' 0, example_doc ''C'' 1] ''A'' = Some a
       \<and> fused_score default_config [example_doc ''A'' 0, example_doc ''B'' 1]
           [example_doc ''B'' 0, example_doc ''C'' 1] ''B'' = Some b
       \<and> fused_score default_config [example_doc ''A'' 0, example_doc ''B'' 1]
           [example_doc ''B'' 0, example_doc ''C'' 1] ''C'' = Some c
       \<and> a < b \<and> c < b"
  proof (intro exI conjI)
    show "fused_score default_config [example_doc ''A'' 0, example_doc ''B'' 1]
           [example_doc ''B'' 0, example_doc ''C'' 1] ''A'' = Some (7 / 60)"
      by (rule example_fused_scores(1))
    show "fused_score default_config [example_doc ''A'' 0, example_doc ''B'' 1]
           [example_doc ''B'' 0, example_doc ''C'' 1] ''B'' = Some (201 / 1220)"
      by (rule example_fused_scores(2))
    show "fused_score default_config [example_doc ''A'' 0, example_doc ''B'' 1]
           [example_doc ''B'' 0, example_doc ''C'' 1] ''C'' = Some (3 / 61)"
      by (rule example_fused_scores(3))
    show "(7 / 60 :: real) < 201 / 1220" by simp
    show "(3 / 61 :: real) < 201 / 1220" by simp
  qed
qed

theorem both_lists_score_at_least_one_list_witness:
  "settings_bounds default_config
   \<and> well_ranked [example_doc ''A'' 0, example_doc ''B'' 1]
   \<and> well_ranked [example_doc ''B'' 0, example_doc ''C'' 1]
   \<and> well_ranked [example_doc ''C'' 1]
   \<and> find (\<lambda>d. chunk_id d = ''B'') [example_doc ''A'' 0, example_doc ''B'' 1]
       = Some (example_doc ''B'' 1)
   \<and> find (\<lambda>d. chunk_id d = ''B'') [example_doc ''B'' 0, example_doc ''C'' 1]
       = Some (example_doc ''B'' 0)
   \<and> rank (example_doc ''B'' 1) = rank (example_doc ''B'' 1)
   \<and> find (\<lambda>d. chunk_id d = ''B'') [example_doc ''C'' 1] = None
   \<and> (\<exists>v1 v2. fused_score default_config [example_doc ''A'' 0, example_doc ''B'' 1]
                  [example_doc ''B'' 0, example_doc ''C'' 1] ''B'' = Some v1
             \<and> fused_score default_config [example_doc ''A'' 0, example_doc ''B'' 1]
                  [example_doc ''C'' 1] ''B'' = Some v2
             \<and> v2 \<le> v1)"
proof -
  have h1: "settings_bounds default_config"
    by (simp add: settings_bounds_def default_config_def)
  have h2: "well_ranked [example_doc ''A'' 0, example_doc ''B'' 1]"
    by (simp add: well_ranked_def example_doc_def)
  have h3: "well_ranked [example_doc ''B'' 0, example_doc ''C'' 1]"
    by (simp add: well_ranked_def example_doc_def)
  have h4: "well_ranked [example_doc ''C'' 1]"
    by (simp add: well_ranked_def example_doc_def)
  have h5: "find (\<lambda>d. chunk_id d = ''B'') [example_doc ''A'' 0, example_doc ''B'' 1]
       = Some (example_doc ''B'' 1)"
    by (simp add: example_doc_def)
  have h6: "find (\<lambda>d. chunk_id d = ''B'') [example_doc ''B'' 0, example_doc ''C'' 1]
       = Some (example_doc ''B'' 0)"
    by (simp add: example_doc_def)
  have h7: "rank (example_doc ''B'' 1) = rank (example_doc ''B'' 1)" by simp
  have h8: "find (\<lambda>d. chunk_id d = ''B'') [example_doc ''C'' 1] = None"
    by (simp add: example_doc_def)
  from both_lists_score_at_least_one_list
         [of default_config "[example_doc ''A'' 0, example_doc ''B'' 1]"
            "[example_doc ''B'' 0, example_doc ''C'' 1]"
            "[example_doc ''A'' 0, example_doc ''B'' 1]" "[example_doc ''C'' 1]"
            "''B''" "example_doc ''B'' 1" "example_doc ''B'' 0" "''B''" "example_doc ''B'' 1"]
       h1 h2 h3 h4 h5 h6 h7 h8
  have "\<exists>v1 v2. fused_score default_config [example_doc ''A'' 0, example_doc ''B'' 1]
                  [example_doc ''B'' 0, example_doc ''C'' 1] ''B'' = Some v1
             \<and> fused_score default_config [example_doc ''A'' 0, example_doc ''B'' 1]
                  [example_doc ''C'' 1] ''B'' = Some v2
             \<and> v2 \<le> v1"
    by blast
  with h1 h2 h3 h4 h5 h6 h7 h8 show ?thesis by blast
qed

section \<open>A source that fails\<close>




















section \<open>What a role receives\<close>

lemma tokenize_fee_split: "tokenize ''fee split'' = [''fee'', ''split'']"
  by (simp add: tokenize_def token_pattern_def re_findall_def match_len_def lower_def
      word_before_def word_after_def is_word_char_def lower_char_def char_of_eq_iff)

lemma analyst_memo_filter:
  "build_filter_dict ANALYST None None (Some [''partner_memo'']) = [(''document_type'', FList [])]"
  by (simp add: build_filter_dict_def allowed_types_def get_role_filter_def
      get_accessible_document_types_def DOCUMENT_ACCESS_LEVELS_def can_access_def)

lemma memo_sparse_search:
  "bm25_search overlap_scorer memo_documents ''fee split'' 10 [(''document_type'', FList [])] = []"
  by (simp add: bm25_search_def tokenize_fee_split memo_documents_def apply_filters_def
      passes_filter_def overlap_scorer_def py_take_def enumerate_eq_zip Let_def)

lemma memo_dense_search:
  "vector_store_search (stored_points_client memo_points) [1, 0] 10 [(''document_type'', FList [])]
   = Inr [\<lparr>chunk_id = ''c1'', document_id = ''d1'', content = ''fee split'', score = 9 / 10,
            rank = 0, filename = ''memo.md'', document_type = ''partner_memo'', title = None,
            section_title = None, chunk_index = 0, doc_client_name = None,
            doc_practice_area = None, tags = []\<rparr>]"
  by (simp add: vector_store_search_def stored_points_client_def build_query_filter_def
      memo_points_def from_search_result_def get_str_def get_opt_str_def get_int_def
      get_list_def enumerate_eq_zip Let_def)


lemma allowed_types_subset:
  "set (allowed_types user_role document_types) \<subseteq> set (get_accessible_document_types user_role)"
  by (auto simp: allowed_types_def get_role_filter_def split: option.splits)

lemma allowed_types_intersection:
  "ts \<noteq> [] \<Longrightarrow>
   set (allowed_types user_role (Some ts)) = set ts \<inter> set (get_accessible_document_types user_role)"
  by (auto simp: allowed_types_def get_role_filter_def)

text \<open>
  Claim C6. The document types handed to the sources are always among those the role may
  read (\<open>allowed_types_subset\<close>), and for a filter that is not empty they are the
  intersection (\<open>allowed_types_intersection\<close>). But an analyst does receive a partner
  document: when the analyst asks for the type "partner_memo" only, the intersection is
  empty, the vector store builds no condition from an empty list and so queries the
  index with no filter at all, and \<open>retrieve\<close> returns the partner memo that the dense
  source found. The sparse index, given the same filter, returns nothing.
\<close>

theorem analyst_receives_partner_memo:
  "allowed_types ANALYST (Some [''partner_memo'']) = []
   \<and> build_query_filter (build_filter_dict ANALYST None None (Some [''partner_memo''])) = None
   \<and> retrieve default_config constant_embedder
        (vector_store_search (stored_points_client memo_points))
        (bm25_source overlap_scorer memo_documents) ''fee split'' ANALYST 5 None None
        (Some [''partner_memo''])
      = Inr [\<lparr>chunk_id = ''c1'', document_id = ''d1'', content = ''fee split'', score = 9 / 10,
               rank = 0, filename = ''memo.md'', document_type = ''partner_memo'', title = None,
               section_title = None, chunk_index = 0, doc_client_name = None,
               doc_practice_area = None, tags = []\<rparr>]
   \<and> get_document_access_level ''partner_memo'' = PARTNER
   \<and> \<not> can_access ANALYST PARTNER"
proof (intro conjI)
  show "allowed_types ANALYST (Some [''partner_memo'']) = []"
    by (simp add: allowed_types_def get_role_filter_def get_accessible_document_types_def
        DOCUMENT_ACCESS_LEVELS_def can_access_def)
  show "build_query_filter (build_filter_dict ANALYST None None (Some [''partner_memo''])) = None"
    by (simp add: analyst_memo_filter build_query_filter_def)
  show "retrieve default_config constant_embedder
        (vector_store_search (stored_points_client memo_points))
        (bm25_source overlap_scorer memo_documents) ''fee split'' ANALYST 5 None None
        (Some [''partner_memo''])
      = Inr [\<lparr>chunk_id = ''c1'', document_id = ''d1'', content = ''fee split'', score = 9 / 10,
               rank = 0, filename = ''memo.md'', document_type = ''partner_memo'', title = None,
               section_title = None, chunk_index = 0, doc_client_name = None,
               doc_practice_area = None, tags = []\<rparr>]"
    by (simp add: retrieve_def analyst_memo_filter dense_retrieval_def sparse_retrieval_def
        default_config_def constant_embedder_def bm25_source_def memo_sparse_search
        memo_dense_search combine_results_def py_take_def Let_def)
  show "get_document_access_level ''partner_memo'' = PARTNER"
    by (simp add: get_document_access_level_def DOCUMENT_ACCESS_LEVELS_def lower_def
        lower_char_def)
  show "\<not> can_access ANALYST PARTNER"
    by (simp add: can_access_def)
qed

section \<open>Rule-based classification of a query\<close>

lemma key_risks_SUMMARIZE_CLIENT:
  "match_patterns SUMMARIZE_CLIENT_patterns ''What are the key risks for this project?'' ([], 0) = ([], 0)"
  by (simp add: SUMMARIZE_CLIENT_patterns_def summar_def opportunit_def note_match_def matching)

lemma key_risks_CLIENT_BACKGROUND:
  "match_patterns CLIENT_BACKGROUND_patterns ''What are the key risks for this project?'' ([], 0) = ([], 0)"
  by (simp add: CLIENT_BACKGROUND_patterns_def summar_def opportunit_def note_match_def matching)

lemma key_risks_RISK_ANALYSIS:
  "match_patterns RISK_ANALYSIS_patterns ''What are the key risks for this project?'' ([], 0) = ([], 0)"
  by (simp add: RISK_ANALYSIS_patterns_def summar_def opportunit_def note_match_def matching)

lemma key_risks_OPPORTUNITY_ANALYSIS:
  "match_patterns OPPORTUNITY_ANALYSIS_patterns ''What are the key risks for this project?'' ([], 0) = ([], 0)"
  by (simp add: OPPORTUNITY_ANALYSIS_patterns_def summar_def opportunit_def note_match_def matching)

lemma key_risks_DRAFT_RECOMMENDATIONS:
  "match_patterns DRAFT_RECOMMENDATIONS_patterns ''What are the key risks for this project?'' ([], 0) = ([], 0)"
  by (simp add: DRAFT_RECOMMENDATIONS_patterns_def summar_def opportunit_def note_match_def matching)

lemma key_risks_ACTION_ITEMS:
  "match_patterns ACTION_ITEMS_patterns ''What are the key risks for this project?'' ([], 0) = ([], 0)"
  by (simp add: ACTION_ITEMS_patterns_def summar_def opportunit_def note_match_def matching)

lemma key_risks_EXECUTIVE_SUMMARY:
  "match_patterns EXECUTIVE_SUMMARY_patterns ''What are the key risks for this project?'' ([], 0) = ([], 0)"
  by (simp add: EXECUTIVE_SUMMARY_patterns_def summar_def opportunit_def note_match_def matching)

lemma key_risks_TALKING_POINTS:
  "match_patterns TALKING_POINTS_patterns ''What are the key risks for this project?'' ([], 0) = ([], 0)"
  by (simp add: TALKING_POINTS_patterns_def summar_def opportunit_def note_match_def matching)

lemma key_risks_COMPARE_APPROACHES:
  "match_patterns COMPARE_APPROACHES_patterns ''What are the key risks for this project?'' ([], 0) = ([], 0)"
  by (simp add: COMPARE_APPROACHES_patterns_def summar_def opportunit_def note_match_def matching)

lemma key_risks_RESEARCH_TOPIC:
  "match_patterns RESEARCH_TOPIC_patterns ''What are the key risks for this project?'' ([], 0) = ([], 0)"
  by (simp add: RESEARCH_TOPIC_patterns_def summar_def opportunit_def note_match_def matching)

lemma key_risks_QUESTION_ANSWER:
  "match_patterns QUESTION_ANSWER_patterns ''What are the key risks for this project?'' ([], 0)
   = (map fst QUESTION_ANSWER_patterns, 3 / 10)"
  by (simp add: QUESTION_ANSWER_patterns_def note_match_def matching)

lemma rules_key_risks:
  "detect_with_rules ''What are the key risks for this project?''
   = \<lparr>task_type = QUESTION_ANSWER, confidence = 3 / 10,
      matched_patterns = map fst QUESTION_ANSWER_patterns, method = ''rule''\<rparr>"
  by (simp add: detect_with_rules_def INTENT_PATTERNS_def score_entry_def best_match_def
      key_risks_SUMMARIZE_CLIENT key_risks_CLIENT_BACKGROUND key_risks_RISK_ANALYSIS key_risks_OPPORTUNITY_ANALYSIS key_risks_DRAFT_RECOMMENDATIONS key_risks_ACTION_ITEMS key_risks_EXECUTIVE_SUMMARY key_risks_TALKING_POINTS key_risks_COMPARE_APPROACHES key_risks_RESEARCH_TOPIC key_risks_QUESTION_ANSWER)

text \<open>
  Claim C1. For the query "What are the key risks for this project?" the rules do not
  return the risk analysis category: no pattern of that category matches (the third one
  wants "risks" right after "what are the", and the query has "key" there), only the two
  patterns of the general category do, and the result is the general question answering
  category with the method "rule" and confidence 0.3, which is below 0.6.
\<close>

theorem key_risks_query_is_question_answer:
  "detect_with_rules ''What are the key risks for this project?''
     = \<lparr>task_type = QUESTION_ANSWER, confidence = 3 / 10,
        matched_patterns = map fst QUESTION_ANSWER_patterns, method = ''rule''\<rparr>
   \<and> match_patterns RISK_ANALYSIS_patterns ''What are the key risks for this project?'' ([], 0) = ([], 0)
   \<and> task_type (detect_with_rules ''What are the key risks for this project?'') \<noteq> RISK_ANALYSIS
   \<and> \<not> 6 / 10 \<le> confidence (detect_with_rules ''What are the key risks for this project?'')"
  by (simp add: rules_key_risks key_risks_RISK_ANALYSIS)


section \<open>Two paragraphs\<close>



lemma set_lstrip_subset: "set (lstrip s) \<subseteq> set s"
  by (simp add: lstrip_def set_dropWhileD subsetI)


























section \<open>Escalation of the intent detection\<close>

lemma method_detect_with_rules: "method (detect_with_rules query) = ''rule''"
  by (simp add: detect_with_rules_def best_match_def Let_def split: list.splits)


















section \<open>Parsing the answer of the model\<close>




















lemma clean_answer_object_text: "clean_response answer_object_text = answer_object_text"
  by (simp add: clean_response_def answer_object_text_def quote_def fence_def strip_def
      lstrip_def rstrip_def isspace_def Let_def)

lemma validate_answer_object:
  "base_output_validate task answer_object = Inl (ValidationError ''summary: Field required'')"
  by (simp add: base_output_validate_def answer_object_def)

lemma loads_answer_object_text: "example_json_loads answer_object_text = Inr answer_object"
  by (simp add: example_json_loads_def)

text \<open>
  Claim C2. With structured output switched on, an output that the decoder accepts and
  the validation rejects makes \<open>_parse_response\<close> return the decoded JSON exactly as it
  was decoded: nothing is added to it, no note of the validation error either.
\<close>

theorem validation_failure_returns_parsed_json:
  assumes "json_loads (clean_response raw) = Inr parsed"
    and "model_validate task parsed = Inl (ValidationError msg)"
  shows "parse_response True json_loads model_validate raw task = Inr parsed"
  using assms by (simp add: parse_response_def Let_def on_validation_error_def)

theorem validation_failure_returns_parsed_json_witness:
  "example_json_loads (clean_response answer_object_text) = Inr answer_object
   \<and> base_output_validate QUESTION_ANSWER answer_object
       = Inl (ValidationError ''summary: Field required'')
   \<and> parse_response True example_json_loads base_output_validate answer_object_text
        QUESTION_ANSWER = Inr answer_object"
proof -
  have h1: "example_json_loads (clean_response answer_object_text) = Inr answer_object"
    by (simp add: clean_answer_object_text loads_answer_object_text)
  have h2: "base_output_validate QUESTION_ANSWER answer_object
       = Inl (ValidationError ''summary: Field required'')"
    by (rule validate_answer_object)
  from validation_failure_returns_parsed_json
      [where json_loads = example_json_loads and raw = answer_object_text
         and model_validate = base_output_validate and task = QUESTION_ANSWER, OF h1 h2] h1 h2
  show ?thesis by simp
qed

theorem validation_failure_not_annotated:
  "example_json_loads (clean_response answer_object_text) = Inr answer_object
   \<and> base_output_validate QUESTION_ANSWER answer_object
       = Inl (ValidationError ''summary: Field required'')
   \<and> parse_response True example_json_loads base_output_validate answer_object_text
        QUESTION_ANSWER = Inr (JObject [(''answer'', JStr ''yes'')])
   \<and> \<not> has_key ''validation_error'' (JObject [(''answer'', JStr ''yes'')])"
  by (simp add: parse_response_def Let_def on_validation_error_def clean_answer_object_text
      loads_answer_object_text validate_answer_object)
     (simp add: answer_object_def)











































end
